theory Spec2Isabelle
  imports Complex_Main "HOL-Library.Sublist"
begin

section \<open>JavaScript values as the code uses them\<close>

text \<open>
  An optional property of an object (\<^verbatim>\<open>phone?: string\<close>) is an \<open>option\<close>: \<open>None\<close> is a key that
  is absent. A key that is present and holds \<^verbatim>\<open>undefined\<close> is not represented: JSON cannot carry
  it and the forms fill their fields with strings. A column or payload value that may be
  \<^verbatim>\<open>null\<close> is an \<open>option\<close> as well, \<open>None\<close> being \<^verbatim>\<open>null\<close>. Strings are lists of \<open>char\<close>.
  Times (\<^verbatim>\<open>Date.now()\<close>, \<^verbatim>\<open>new Date()\<close>) are natural numbers handed to the function that reads
  the clock.

  The operators \<^verbatim>\<open>a || b\<close> and \<^verbatim>\<open>a ?? b\<close>, one definition per type of \<^verbatim>\<open>a\<close>: the empty string,
  \<^verbatim>\<open>false\<close>, \<^verbatim>\<open>0\<close>, \<^verbatim>\<open>null\<close> and \<^verbatim>\<open>undefined\<close> are falsy, an array is truthy even when
  it is empty, and \<^verbatim>\<open>??\<close> only replaces \<^verbatim>\<open>null\<close> and \<^verbatim>\<open>undefined\<close>.
\<close>

definition or_string :: "string option \<Rightarrow> string \<Rightarrow> string" where
  "or_string a b = (case a of None \<Rightarrow> b | Some s \<Rightarrow> if s = [] then b else s)"

definition or_string_opt :: "string option \<Rightarrow> string option \<Rightarrow> string option" where
  "or_string_opt a b = (case a of None \<Rightarrow> b | Some s \<Rightarrow> if s = [] then b else Some s)"

definition or_array :: "'a list option \<Rightarrow> 'a list \<Rightarrow> 'a list" where
  "or_array a b = (case a of None \<Rightarrow> b | Some xs \<Rightarrow> xs)"

definition or_bool :: "bool option \<Rightarrow> bool \<Rightarrow> bool" where
  "or_bool a b = (case a of None \<Rightarrow> b | Some v \<Rightarrow> if v then True else b)"

definition nullish :: "'a option \<Rightarrow> 'a \<Rightarrow> 'a" where
  "nullish a b = (case a of None \<Rightarrow> b | Some v \<Rightarrow> v)"

section \<open>The shared schema (shared/schema.ts)\<close>

record PersonalInfo =
  firstName :: string
  lastName :: string
  email :: string
  phone :: "string option"
  summary :: "string option"
  website :: "string option"
  linkedin :: "string option"

record EducationItem =
  id :: string
  school :: string
  degree :: string
  startDate :: string
  endDate :: "string option"
  description :: "string option"
  current :: "bool option"

record ExperienceItem =
  id :: string
  company :: string
  position :: string
  startDate :: string
  endDate :: "string option"
  description :: "string option"
  current :: "bool option"

record ProjectItem =
  id :: string
  name :: string
  technologies :: "string option"
  url :: "string option"
  description :: "string option"

text \<open>\<^verbatim>\<open>Resume = z.infer<typeof resumeSchema>\<close>: the draft the builder edits.\<close>

record Resume =
  personalInfo :: PersonalInfo
  education :: "EducationItem list"
  experience :: "ExperienceItem list"
  skills :: "string list"
  projects :: "ProjectItem list"
  templateStyle :: "string option"
  colorScheme :: "string option"
  isAtsOptimized :: "bool option"
  targetRole :: "string option"
  atsScore :: "int option"

text \<open>\<^verbatim>\<open>Partial<Resume>\<close>: every top-level key optional; a \<open>personalInfo\<close> that is present is a
  whole \<open>PersonalInfo\<close>, whose own optional keys may be absent.\<close>

record Partial_Resume =
  personalInfo :: "PersonalInfo option"
  education :: "EducationItem list option"
  experience :: "ExperienceItem list option"
  skills :: "string list option"
  projects :: "ProjectItem list option"
  templateStyle :: "string option"
  colorScheme :: "string option"
  isAtsOptimized :: "bool option"
  targetRole :: "string option"
  atsScore :: "int option"

section \<open>The Local Draft Store (client/src/lib/localStorage.ts)\<close>

record SavedResumeData =
  personalInfo :: PersonalInfo
  education :: "EducationItem list"
  experience :: "ExperienceItem list"
  skills :: "string list"
  projects :: "ProjectItem list"
  templateStyle :: string
  colorScheme :: string
  isAtsOptimized :: bool
  targetRole :: "string option"
  lastUpdated :: nat

text \<open>
  What \<^verbatim>\<open>JSON.parse\<close> makes of a stored string, read at the type the code casts it to
  (\<^verbatim>\<open>as SavedResumeData\<close>): the top-level keys it carries. A key of another type than the
  interface gives is outside this model, and so is a stored \<open>personalInfo\<close> that lacks a
  required key. A string that parses to \<^verbatim>\<open>null\<close>, a number or a boolean spreads no key at all.
\<close>

record ParsedData =
  personalInfo :: "PersonalInfo option"
  education :: "EducationItem list option"
  experience :: "ExperienceItem list option"
  skills :: "string list option"
  projects :: "ProjectItem list option"
  templateStyle :: "string option"
  colorScheme :: "string option"
  isAtsOptimized :: "bool option"
  targetRole :: "string option"
  lastUpdated :: "nat option"

text \<open>
  The content of a storage slot is a string. The model keeps, in place of the string, what
  \<^verbatim>\<open>JSON.parse\<close> does with it: \<open>Unparsable s\<close> is a string \<open>s\<close> on which it throws a
  \<^verbatim>\<open>SyntaxError\<close> (the empty string is one), \<open>Json obj\<close> a string it reads as \<open>obj\<close>.
  \<^verbatim>\<open>JSON.stringify\<close> of a saved draft writes every key that is not \<^verbatim>\<open>undefined\<close>, and
  \<^verbatim>\<open>JSON.parse\<close> reads that string back as the object with those keys.
\<close>

datatype content = Unparsable string | Json ParsedData

datatype error = StorageError | SyntaxError

definition JSON_parse :: "content \<Rightarrow> error + ParsedData" where
  "JSON_parse c = (case c of Unparsable s \<Rightarrow> Inl SyntaxError | Json obj \<Rightarrow> Inr obj)"

definition JSON_stringify :: "SavedResumeData \<Rightarrow> content" where
  "JSON_stringify d = Json \<lparr>
     ParsedData.personalInfo = Some (SavedResumeData.personalInfo d),
     ParsedData.education = Some (SavedResumeData.education d),
     ParsedData.experience = Some (SavedResumeData.experience d),
     ParsedData.skills = Some (SavedResumeData.skills d),
     ParsedData.projects = Some (SavedResumeData.projects d),
     ParsedData.templateStyle = Some (SavedResumeData.templateStyle d),
     ParsedData.colorScheme = Some (SavedResumeData.colorScheme d),
     ParsedData.isAtsOptimized = Some (SavedResumeData.isAtsOptimized d),
     ParsedData.targetRole = SavedResumeData.targetRole d,
     ParsedData.lastUpdated = Some (SavedResumeData.lastUpdated d)\<rparr>"

text \<open>
  \<^verbatim>\<open>localStorage\<close>: the slots by key, or a storage the browser refuses to open, whose every
  access throws. A write that fails for lack of space is not modelled.
\<close>

datatype localStorage = Unavailable | Slots "string \<rightharpoonup> content"

definition getItem :: "localStorage \<Rightarrow> string \<Rightarrow> error + content option" where
  "getItem ls key = (case ls of Unavailable \<Rightarrow> Inl StorageError | Slots m \<Rightarrow> Inr (m key))"

definition setItem :: "localStorage \<Rightarrow> string \<Rightarrow> content \<Rightarrow> error + localStorage" where
  "setItem ls key v =
     (case ls of Unavailable \<Rightarrow> Inl StorageError | Slots m \<Rightarrow> Inr (Slots (m(key \<mapsto> v))))"

definition removeItem :: "localStorage \<Rightarrow> string \<Rightarrow> error + localStorage" where
  "removeItem ls key =
     (case ls of Unavailable \<Rightarrow> Inl StorageError | Slots m \<Rightarrow> Inr (Slots (m(key := None))))"

definition STORAGE_KEY :: string where
  "STORAGE_KEY = ''resumeBuilder''"

definition defaultData :: SavedResumeData where
  "defaultData = \<lparr>
     SavedResumeData.personalInfo = \<lparr>firstName = '''', lastName = '''', email = '''',
       phone = Some '''', summary = Some '''', website = Some '''', linkedin = Some ''''\<rparr>,
     SavedResumeData.education = [],
     SavedResumeData.experience = [],
     SavedResumeData.skills = [],
     SavedResumeData.projects = [],
     SavedResumeData.templateStyle = ''professional'',
     SavedResumeData.colorScheme = ''blue'',
     SavedResumeData.isAtsOptimized = True,
     SavedResumeData.targetRole = Some '''',
     SavedResumeData.lastUpdated = 0\<rparr>"

text \<open>\<^verbatim>\<open>{ ...defaultData, ...parsedData }\<close>: every key of the parsed object replaces the
  default's, whole; \<open>personalInfo\<close> is not merged key by key here.\<close>

definition spread_parsed :: "SavedResumeData \<Rightarrow> ParsedData \<Rightarrow> SavedResumeData" where
  "spread_parsed d p = \<lparr>
     SavedResumeData.personalInfo = nullish (ParsedData.personalInfo p) (SavedResumeData.personalInfo d),
     SavedResumeData.education = nullish (ParsedData.education p) (SavedResumeData.education d),
     SavedResumeData.experience = nullish (ParsedData.experience p) (SavedResumeData.experience d),
     SavedResumeData.skills = nullish (ParsedData.skills p) (SavedResumeData.skills d),
     SavedResumeData.projects = nullish (ParsedData.projects p) (SavedResumeData.projects d),
     SavedResumeData.templateStyle = nullish (ParsedData.templateStyle p) (SavedResumeData.templateStyle d),
     SavedResumeData.colorScheme = nullish (ParsedData.colorScheme p) (SavedResumeData.colorScheme d),
     SavedResumeData.isAtsOptimized = nullish (ParsedData.isAtsOptimized p) (SavedResumeData.isAtsOptimized d),
     SavedResumeData.targetRole =
       (case ParsedData.targetRole p of None \<Rightarrow> SavedResumeData.targetRole d | Some t \<Rightarrow> Some t),
     SavedResumeData.lastUpdated = nullish (ParsedData.lastUpdated p) (SavedResumeData.lastUpdated d)\<rparr>"

text \<open>The body of the \<^verbatim>\<open>try\<close> block of \<open>getResumeFromLocalStorage\<close>: \<open>Inl\<close> is a throw.\<close>

definition getResume_try :: "localStorage \<Rightarrow> error + SavedResumeData" where
  "getResume_try ls =
     (case getItem ls STORAGE_KEY of
        Inl e \<Rightarrow> Inl e
      | Inr None \<Rightarrow> Inr defaultData
      | Inr (Some savedData) \<Rightarrow>
          if savedData = Unparsable [] then Inr defaultData
          else (case JSON_parse savedData of
                  Inl e \<Rightarrow> Inl e
                | Inr parsedData \<Rightarrow> Inr (spread_parsed defaultData parsedData)))"

text \<open>\<^verbatim>\<open>try { ... } catch (error) { console.error(...); return defaultData; }\<close>. The result is
  \<open>Inr\<close> of the draft returned; an \<open>Inl\<close> would be an exception leaving the function.\<close>

definition getResumeFromLocalStorage :: "localStorage \<Rightarrow> error + SavedResumeData" where
  "getResumeFromLocalStorage ls =
     (case getResume_try ls of Inl e \<Rightarrow> Inr defaultData | Inr d \<Rightarrow> Inr d)"

text \<open>\<^verbatim>\<open>{ ...currentData.personalInfo, ...(data.personalInfo || {}) }\<close>.\<close>

definition spread_personalInfo :: "PersonalInfo \<Rightarrow> PersonalInfo option \<Rightarrow> PersonalInfo" where
  "spread_personalInfo cur new =
     (case new of
        None \<Rightarrow> cur
      | Some p \<Rightarrow> \<lparr>firstName = firstName p, lastName = lastName p, email = email p,
          phone = (case phone p of None \<Rightarrow> phone cur | Some v \<Rightarrow> Some v),
          summary = (case summary p of None \<Rightarrow> summary cur | Some v \<Rightarrow> Some v),
          website = (case website p of None \<Rightarrow> website cur | Some v \<Rightarrow> Some v),
          linkedin = (case linkedin p of None \<Rightarrow> linkedin cur | Some v \<Rightarrow> Some v)\<rparr>)"

text \<open>The object \<open>updatedData\<close> that \<open>saveResumeToLocalStorage\<close> builds; \<open>now\<close> is \<^verbatim>\<open>Date.now()\<close>.\<close>

definition updatedData :: "nat \<Rightarrow> Partial_Resume \<Rightarrow> SavedResumeData \<Rightarrow> SavedResumeData" where
  "updatedData now data currentData = \<lparr>
     SavedResumeData.personalInfo =
       spread_personalInfo (SavedResumeData.personalInfo currentData) (Partial_Resume.personalInfo data),
     SavedResumeData.education =
       or_array (Partial_Resume.education data) (SavedResumeData.education currentData),
     SavedResumeData.experience =
       or_array (Partial_Resume.experience data) (SavedResumeData.experience currentData),
     SavedResumeData.skills =
       or_array (Partial_Resume.skills data) (SavedResumeData.skills currentData),
     SavedResumeData.projects =
       or_array (Partial_Resume.projects data) (SavedResumeData.projects currentData),
     SavedResumeData.templateStyle =
       or_string (Partial_Resume.templateStyle data) (SavedResumeData.templateStyle currentData),
     SavedResumeData.colorScheme =
       or_string (Partial_Resume.colorScheme data) (SavedResumeData.colorScheme currentData),
     SavedResumeData.isAtsOptimized =
       nullish (Partial_Resume.isAtsOptimized data) (SavedResumeData.isAtsOptimized currentData),
     SavedResumeData.targetRole =
       or_string_opt (Partial_Resume.targetRole data) (SavedResumeData.targetRole currentData),
     SavedResumeData.lastUpdated = now\<rparr>"

definition saveResumeToLocalStorage :: "nat \<Rightarrow> Partial_Resume \<Rightarrow> localStorage \<Rightarrow> error + localStorage" where
  "saveResumeToLocalStorage now data ls =
     (case getResumeFromLocalStorage ls of
        Inl e \<Rightarrow> Inl e
      | Inr currentData \<Rightarrow> setItem ls STORAGE_KEY (JSON_stringify (updatedData now data currentData)))"

definition clearResumeFromLocalStorage :: "localStorage \<Rightarrow> error + localStorage" where
  "clearResumeFromLocalStorage ls = removeItem ls STORAGE_KEY"

text \<open>The builder's first in-memory draft (\<^verbatim>\<open>useState<Resume>({...})\<close> in pages/ResumeBuilder.tsx).\<close>

definition initial_resumeData :: Resume where
  "initial_resumeData = \<lparr>
     Resume.personalInfo = \<lparr>firstName = '''', lastName = '''', email = '''',
       phone = Some '''', summary = Some '''', website = Some '''', linkedin = Some ''''\<rparr>,
     Resume.education = [],
     Resume.experience = [],
     Resume.skills = [],
     Resume.projects = [],
     Resume.templateStyle = Some ''professional'',
     Resume.colorScheme = Some ''blue'',
     Resume.isAtsOptimized = Some True,
     Resume.targetRole = Some '''',
     Resume.atsScore = None\<rparr>"

text \<open>Sequencing of calls that may throw: the second runs on the first's result.\<close>

definition and_then :: "error + 'a \<Rightarrow> ('a \<Rightarrow> error + 'b) \<Rightarrow> error + 'b" where
  "and_then r f = (case r of Inl e \<Rightarrow> Inl e | Inr v \<Rightarrow> f v)"

text \<open>The empty object \<^verbatim>\<open>{}\<close> as a \<^verbatim>\<open>Partial<Resume>\<close>.\<close>

definition no_keys :: Partial_Resume where
  "no_keys = \<lparr>
     Partial_Resume.personalInfo = None, Partial_Resume.education = None,
     Partial_Resume.experience = None, Partial_Resume.skills = None,
     Partial_Resume.projects = None, Partial_Resume.templateStyle = None,
     Partial_Resume.colorScheme = None, Partial_Resume.isAtsOptimized = None,
     Partial_Resume.targetRole = None, Partial_Resume.atsScore = None\<rparr>"

text \<open>
  The merge in the specification's words: a key present in the partial replaces the prior
  value whole, whatever it holds (an empty string and an empty array included), and an absent
  key keeps the prior value. \<open>personalInfo\<close> is merged one level deeper: when the partial
  carries one, each of its keys replaces the prior one (the three required keys are always
  there), and an optional key it does not carry keeps the prior value. The stamp is the time
  of the save. The definition is written from the specification alone.
\<close>

definition merge_as_specified :: "nat \<Rightarrow> Partial_Resume \<Rightarrow> SavedResumeData \<Rightarrow> SavedResumeData" where
  "merge_as_specified now partial prior = \<lparr>
     SavedResumeData.personalInfo =
       (case Partial_Resume.personalInfo partial of
          None \<Rightarrow> SavedResumeData.personalInfo prior
        | Some p \<Rightarrow> \<lparr>
            firstName = firstName p,
            lastName = lastName p,
            email = email p,
            phone = (if phone p = None then phone (SavedResumeData.personalInfo prior) else phone p),
            summary = (if summary p = None then summary (SavedResumeData.personalInfo prior) else summary p),
            website = (if website p = None then website (SavedResumeData.personalInfo prior) else website p),
            linkedin = (if linkedin p = None then linkedin (SavedResumeData.personalInfo prior) else linkedin p)\<rparr>),
     SavedResumeData.education =
       (case Partial_Resume.education partial of None \<Rightarrow> SavedResumeData.education prior | Some v \<Rightarrow> v),
     SavedResumeData.experience =
       (case Partial_Resume.experience partial of None \<Rightarrow> SavedResumeData.experience prior | Some v \<Rightarrow> v),
     SavedResumeData.skills =
       (case Partial_Resume.skills partial of None \<Rightarrow> SavedResumeData.skills prior | Some v \<Rightarrow> v),
     SavedResumeData.projects =
       (case Partial_Resume.projects partial of None \<Rightarrow> SavedResumeData.projects prior | Some v \<Rightarrow> v),
     SavedResumeData.templateStyle =
       (case Partial_Resume.templateStyle partial of None \<Rightarrow> SavedResumeData.templateStyle prior | Some v \<Rightarrow> v),
     SavedResumeData.colorScheme =
       (case Partial_Resume.colorScheme partial of None \<Rightarrow> SavedResumeData.colorScheme prior | Some v \<Rightarrow> v),
     SavedResumeData.isAtsOptimized =
       (case Partial_Resume.isAtsOptimized partial of None \<Rightarrow> SavedResumeData.isAtsOptimized prior | Some v \<Rightarrow> v),
     SavedResumeData.targetRole =
       (case Partial_Resume.targetRole partial of None \<Rightarrow> SavedResumeData.targetRole prior | Some v \<Rightarrow> Some v),
     SavedResumeData.lastUpdated = now\<rparr>"

text \<open>
  The merge as amended: as above, but a top-level string (\<open>templateStyle\<close>, \<open>colorScheme\<close>,
  \<open>targetRole\<close>) replaces the prior value only when it is present and not empty.
\<close>

definition replaced_if_nonempty :: "string option \<Rightarrow> string \<Rightarrow> string" where
  "replaced_if_nonempty v prior = (case v of None \<Rightarrow> prior | Some s \<Rightarrow> if s = [] then prior else s)"

definition merge_nonempty_strings :: "nat \<Rightarrow> Partial_Resume \<Rightarrow> SavedResumeData \<Rightarrow> SavedResumeData" where
  "merge_nonempty_strings now partial prior =
     (merge_as_specified now partial prior) \<lparr>
        SavedResumeData.templateStyle :=
          replaced_if_nonempty (Partial_Resume.templateStyle partial) (SavedResumeData.templateStyle prior),
        SavedResumeData.colorScheme :=
          replaced_if_nonempty (Partial_Resume.colorScheme partial) (SavedResumeData.colorScheme prior),
        SavedResumeData.targetRole :=
          (case Partial_Resume.targetRole partial of
             None \<Rightarrow> SavedResumeData.targetRole prior
           | Some s \<Rightarrow> if s = [] then SavedResumeData.targetRole prior else Some s)\<rparr>"

section \<open>The Text Projection (client/src/lib/resumeService.ts)\<close>

text \<open>\<^verbatim>\<open>Array.prototype.join\<close> on an array of strings.\<close>

fun join :: "string \<Rightarrow> string list \<Rightarrow> string" where
  "join sep [] = []"
| "join sep [x] = x"
| "join sep (x # y # ys) = x @ sep @ join sep (y # ys)"

text \<open>The bodies of the three \<^verbatim>\<open>forEach\<close> callbacks: the text after one more entry.\<close>

definition add_experience :: "string \<Rightarrow> ExperienceItem \<Rightarrow> string" where
  "add_experience text exp' =
     (let text = text @ ExperienceItem.position exp' @ '' at '' @ ExperienceItem.company exp' @ ''\<newline>'';
          text = text @ ExperienceItem.startDate exp' @ '' - ''
                   @ (if ExperienceItem.current exp' = Some True then ''Present''
                      else or_string (ExperienceItem.endDate exp') '''') @ ''\<newline>'';
          text = text @ or_string (ExperienceItem.description exp') '''' @ ''\<newline>\<newline>''
      in text)"

definition add_education :: "string \<Rightarrow> EducationItem \<Rightarrow> string" where
  "add_education text edu =
     (let text = text @ EducationItem.degree edu @ '' at '' @ EducationItem.school edu @ ''\<newline>'';
          text = text @ EducationItem.startDate edu @ '' - ''
                   @ (if EducationItem.current edu = Some True then ''Present''
                      else or_string (EducationItem.endDate edu) '''') @ ''\<newline>'';
          text = text @ or_string (EducationItem.description edu) '''' @ ''\<newline>\<newline>''
      in text)"

definition add_project :: "string \<Rightarrow> ProjectItem \<Rightarrow> string" where
  "add_project text project =
     (let text = text @ ProjectItem.name project @ ''\<newline>'';
          text = text @ ''Technologies: '' @ or_string (ProjectItem.technologies project) '''' @ ''\<newline>'';
          text = (case ProjectItem.url project of
                    None \<Rightarrow> text
                  | Some u \<Rightarrow> if u = [] then text else text @ ''URL: '' @ u @ ''\<newline>'');
          text = text @ or_string (ProjectItem.description project) '''' @ ''\<newline>\<newline>''
      in text)"

definition resumeToText :: "Resume \<Rightarrow> string" where
  "resumeToText resumeData =
     (let personalInfo = Resume.personalInfo resumeData;
          education = Resume.education resumeData;
          experience = Resume.experience resumeData;
          skills = Resume.skills resumeData;
          projects = Resume.projects resumeData;
          text = firstName personalInfo @ '' '' @ lastName personalInfo @ ''\<newline>'';
          text = text @ email personalInfo @ '' | '' @ or_string (phone personalInfo) '''' @ ''\<newline>'';
          text = (case website personalInfo of
                    None \<Rightarrow> text
                  | Some w \<Rightarrow> if w = [] then text else text @ ''Website: '' @ w @ ''\<newline>'');
          text = (case linkedin personalInfo of
                    None \<Rightarrow> text
                  | Some l \<Rightarrow> if l = [] then text else text @ ''LinkedIn: '' @ l @ ''\<newline>'');
          text = text @ ''\<newline>SUMMARY\<newline>'';
          text = text @ or_string (summary personalInfo) '''' @ ''\<newline>\<newline>'';
          text = (if length experience > 0
                  then foldl add_experience (text @ ''EXPERIENCE\<newline>'') experience else text);
          text = (if length education > 0
                  then foldl add_education (text @ ''EDUCATION\<newline>'') education else text);
          text = (if length skills > 0
                  then (text @ ''SKILLS\<newline>'') @ join '', '' skills @ ''\<newline>\<newline>'' else text);
          text = (if length projects > 0
                  then foldl add_project (text @ ''PROJECTS\<newline>'') projects else text)
      in text)"

text \<open>
  Every string of the draft that the projection can write into the text: the words a user
  typed, as opposed to the headings the projection writes itself.
\<close>

definition opt_string :: "string option \<Rightarrow> string list" where
  "opt_string a = (case a of None \<Rightarrow> [] | Some s \<Rightarrow> [s])"

definition experience_strings :: "ExperienceItem \<Rightarrow> string list" where
  "experience_strings exp' =
     [ExperienceItem.position exp', ExperienceItem.company exp', ExperienceItem.startDate exp']
     @ opt_string (ExperienceItem.endDate exp') @ opt_string (ExperienceItem.description exp')"

definition education_strings :: "EducationItem \<Rightarrow> string list" where
  "education_strings edu =
     [EducationItem.degree edu, EducationItem.school edu, EducationItem.startDate edu]
     @ opt_string (EducationItem.endDate edu) @ opt_string (EducationItem.description edu)"

definition project_strings :: "ProjectItem \<Rightarrow> string list" where
  "project_strings project =
     [ProjectItem.name project] @ opt_string (ProjectItem.technologies project)
     @ opt_string (ProjectItem.url project) @ opt_string (ProjectItem.description project)"

definition personal_strings :: "PersonalInfo \<Rightarrow> string list" where
  "personal_strings p =
     [firstName p, lastName p, email p] @ opt_string (phone p) @ opt_string (website p)
     @ opt_string (linkedin p) @ opt_string (summary p)"

definition draft_strings :: "Resume \<Rightarrow> string list" where
  "draft_strings d =
     personal_strings (Resume.personalInfo d)
     @ concat (map experience_strings (Resume.experience d))
     @ concat (map education_strings (Resume.education d))
     @ Resume.skills d
     @ concat (map project_strings (Resume.projects d))"

text \<open>A word occurs in a text when it is a contiguous part of it; no string of the draft
  holds the word.\<close>

definition unmentioned :: "string \<Rightarrow> Resume \<Rightarrow> bool" where
  "unmentioned w d = list_all (\<lambda>s. \<not> sublist w s) (draft_strings d)"

section \<open>The simulated optimization and generation service (server/routes.ts)\<close>

record OptimizeResult =
  optimizedText :: string
  atsScore :: int

text \<open>\<open>random\<close> is the value \<^verbatim>\<open>Math.random()\<close> returns, a number from 0 up to but not including
  1, taken as a real number; the rounding of the product to a double is not modelled.\<close>

definition roleSpecificText :: "string option \<Rightarrow> string" where
  "roleSpecificText role =
     (let generic = ''\<newline>\<newline>[ATS Optimized]\<newline>- Added relevant keywords\<newline>- Improved formatting\<newline>- Enhanced readability for ATS systems''
      in case role of
           None \<Rightarrow> generic
         | Some r \<Rightarrow>
             if r = [] then generic
             else ''\<newline>\<newline>[ATS Optimized for '' @ r @ '']\<newline>- Added '' @ r
                  @ ''-specific keywords\<newline>- Highlighted relevant skills for '' @ r
                  @ ''\<newline>- Reordered experience to emphasize '' @ r
                  @ '' qualifications\<newline>- Improved formatting for ATS systems'')"

definition optimizeForATS :: "real \<Rightarrow> string \<Rightarrow> string option \<Rightarrow> OptimizeResult" where
  "optimizeForATS random resumeText role =
     (let atsScore = \<lfloor>random * 31\<rfloor> + 65
      in \<lparr>optimizedText = resumeText @ roleSpecificText role, atsScore = atsScore\<rparr>)"

definition greeting :: "string option \<Rightarrow> string" where
  "greeting companyName =
     (case companyName of
        None \<Rightarrow> ''Dear Hiring Manager,''
      | Some c \<Rightarrow> if c = [] then ''Dear Hiring Manager,'' else ''Dear '' @ c @ '' Hiring Team,'')"

definition introduction :: "string \<Rightarrow> string" where
  "introduction role =
     (if role \<noteq> []
      then ''I am writing to express my interest in the '' @ role @ '' position.''
      else ''I am writing to express my interest in the open position at your company.'')"

definition body :: string where
  "body = ''After reviewing the job description, I believe my skills and experience make me a strong candidate. My background has prepared me for the challenges of this role, and I am excited about the opportunity to contribute to your team.\<newline>\<newline>Based on my resume, I have relevant experience that aligns with your requirements. My approach combines technical expertise with a strong work ethic, which enables me to deliver high-quality results consistently.''"

definition closing :: "string option \<Rightarrow> string" where
  "closing companyName =
     (let generic = ''I would welcome the opportunity to discuss how my qualifications align with your needs for this position.''
      in case companyName of
           None \<Rightarrow> generic
         | Some c \<Rightarrow>
             if c = [] then generic
             else ''I am particularly drawn to '' @ c @ '' because of your reputation for innovation and excellence in the industry. I would welcome the opportunity to discuss how my qualifications align with your needs.'')"

definition generateCoverLetter :: "string \<Rightarrow> string \<Rightarrow> string option \<Rightarrow> string" where
  "generateCoverLetter resumeText role companyName =
     greeting companyName @ ''\<newline>\<newline>'' @ introduction role @ ''\<newline>\<newline>'' @ body
     @ ''\<newline>\<newline>'' @ closing companyName
     @ ''\<newline>\<newline>Thank you for considering my application. I look forward to the possibility of working with your team.\<newline>\<newline>Sincerely,\<newline>[Your Name]''"

text \<open>
  The same text as a list of blocks written one after another: the header (name, contact
  lines and summary), then for each section that has entries its heading line followed by one
  block per entry. \<open>resumeToText\<close> is shown below to be the concatenation of these blocks.
\<close>

definition header_block :: "PersonalInfo \<Rightarrow> string" where
  "header_block p =
     firstName p @ '' '' @ lastName p @ ''\<newline>''
     @ email p @ '' | '' @ or_string (phone p) '''' @ ''\<newline>''
     @ (case website p of None \<Rightarrow> [] | Some w \<Rightarrow> if w = [] then [] else ''Website: '' @ w @ ''\<newline>'')
     @ (case linkedin p of None \<Rightarrow> [] | Some l \<Rightarrow> if l = [] then [] else ''LinkedIn: '' @ l @ ''\<newline>'')
     @ ''\<newline>SUMMARY\<newline>'' @ or_string (summary p) '''' @ ''\<newline>\<newline>''"

definition section_blocks :: "string \<Rightarrow> string list \<Rightarrow> string list" where
  "section_blocks heading entries = (if entries = [] then [] else (heading @ ''\<newline>'') # entries)"

definition text_blocks :: "Resume \<Rightarrow> string list" where
  "text_blocks d =
     [header_block (Resume.personalInfo d)]
     @ section_blocks ''EXPERIENCE'' (map (add_experience []) (Resume.experience d))
     @ section_blocks ''EDUCATION'' (map (add_education []) (Resume.education d))
     @ section_blocks ''SKILLS'' (if Resume.skills d = [] then [] else [join '', '' (Resume.skills d) @ ''\<newline>\<newline>''])
     @ section_blocks ''PROJECTS'' (map (add_project []) (Resume.projects d))"

text \<open>A block in which a word does not occur and that is empty or ends with a newline; the
  four section headings.\<close>

definition clean_block :: "string \<Rightarrow> string \<Rightarrow> bool" where
  "clean_block w b = (\<not> sublist w b \<and> (b = [] \<or> last b = CHR 0x0A))"

definition headings :: "string list" where
  "headings = [''EXPERIENCE'', ''EDUCATION'', ''SKILLS'', ''PROJECTS'']"

text \<open>A draft with one entry in every section, after the end-to-end example of the
  specification (first name Ana, an engineer's position at Acme held to the present).\<close>

definition example_draft :: Resume where
  "example_draft = \<lparr>
     Resume.personalInfo = \<lparr>firstName = ''Ana'', lastName = ''Lima'', email = ''ana@example.org'',
       phone = None, summary = Some ''Builds things.'', website = Some '''', linkedin = None\<rparr>,
     Resume.education = [\<lparr>EducationItem.id = ''ed-1'', school = ''State University'', degree = ''BSc'',
       EducationItem.startDate = ''2015-09'', EducationItem.endDate = Some ''2019-06'',
       EducationItem.description = None, EducationItem.current = Some False\<rparr>],
     Resume.experience = [\<lparr>ExperienceItem.id = ''ex-1'', company = ''Acme'', position = ''Engineer'',
       ExperienceItem.startDate = ''2020-01'', ExperienceItem.endDate = None,
       ExperienceItem.description = None, ExperienceItem.current = Some True\<rparr>],
     Resume.skills = [''SQL'', ''Go''],
     Resume.projects = [\<lparr>ProjectItem.id = ''pr-1'', name = ''Ledger'', technologies = Some ''Go'',
       url = None, ProjectItem.description = Some ''A small ledger.''\<rparr>],
     Resume.templateStyle = Some ''modern'',
     Resume.colorScheme = Some ''green'',
     Resume.isAtsOptimized = Some False,
     Resume.targetRole = None,
     Resume.atsScore = None\<rparr>"

section \<open>The Remote Resume Repository (server/storage.ts)\<close>

text \<open>
  \<^verbatim>\<open>ResumeData = typeof resumes.$inferSelect\<close>: a row of the table \<open>resumes\<close>. A nullable column
  is an \<open>option\<close>, \<open>None\<close> being \<^verbatim>\<open>null\<close>. The \<^verbatim>\<open>jsonb\<close> columns, typed \<^verbatim>\<open>unknown\<close> in the
  source, hold the lists the client sends. Timestamps are natural numbers.
\<close>

record ResumeData =
  id :: int
  userId :: int
  firstName :: "string option"
  lastName :: "string option"
  email :: "string option"
  phone :: "string option"
  summary :: "string option"
  website :: "string option"
  linkedin :: "string option"
  education :: "EducationItem list option"
  experience :: "ExperienceItem list option"
  skills :: "string list option"
  projects :: "ProjectItem list option"
  templateStyle :: "string option"
  colorScheme :: "string option"
  targetRole :: "string option"
  isAtsOptimized :: "bool option"
  atsScore :: "int option"
  createdAt :: "nat option"
  updatedAt :: "nat option"

text \<open>
  \<^verbatim>\<open>Partial<ResumeData>\<close>, the payload of create and update: \<open>None\<close> is an absent key,
  \<open>Some None\<close> a key that holds \<^verbatim>\<open>null\<close>, \<open>Some (Some v)\<close> a key that holds \<open>v\<close>.
\<close>

record Partial_ResumeData =
  id :: "int option"
  userId :: "int option"
  firstName :: "string option option"
  lastName :: "string option option"
  email :: "string option option"
  phone :: "string option option"
  summary :: "string option option"
  website :: "string option option"
  linkedin :: "string option option"
  education :: "EducationItem list option option"
  experience :: "ExperienceItem list option option"
  skills :: "string list option option"
  projects :: "ProjectItem list option option"
  templateStyle :: "string option option"
  colorScheme :: "string option option"
  targetRole :: "string option option"
  isAtsOptimized :: "bool option option"
  atsScore :: "int option option"
  createdAt :: "nat option option"
  updatedAt :: "nat option option"

text \<open>The value a key holds, \<^verbatim>\<open>undefined\<close> and \<^verbatim>\<open>null\<close> alike being none: both are falsy.\<close>

definition non_null :: "'a option option \<Rightarrow> 'a option" where
  "non_null x = (case x of Some (Some v) \<Rightarrow> Some v | _ \<Rightarrow> None)"

text \<open>\<^verbatim>\<open>validData.userId || 1\<close>: the number 0 is falsy.\<close>

definition or_number :: "int option \<Rightarrow> int \<Rightarrow> int" where
  "or_number a b = (case a of None \<Rightarrow> b | Some n \<Rightarrow> if n = 0 then b else n)"

text \<open>
  The object handed to \<^verbatim>\<open>.values(...)\<close> by \<open>DatabaseStorage.createResume\<close>, and the fields of the
  literal that \<open>MemStorage.createResume\<close> builds: the two write the same sixteen expressions.
  The remaining columns (\<open>id\<close>, \<open>atsScore\<close>, \<open>createdAt\<close>, \<open>updatedAt\<close>) are the arguments.
\<close>

definition new_resume :: "int \<Rightarrow> int option \<Rightarrow> nat option \<Rightarrow> nat option \<Rightarrow> Partial_ResumeData \<Rightarrow> ResumeData" where
  "new_resume new_id score created updated data = \<lparr>
     ResumeData.id = new_id,
     ResumeData.userId = or_number (Partial_ResumeData.userId data) 1,
     ResumeData.firstName = or_string_opt (non_null (Partial_ResumeData.firstName data)) None,
     ResumeData.lastName = or_string_opt (non_null (Partial_ResumeData.lastName data)) None,
     ResumeData.email = or_string_opt (non_null (Partial_ResumeData.email data)) None,
     ResumeData.phone = or_string_opt (non_null (Partial_ResumeData.phone data)) None,
     ResumeData.summary = or_string_opt (non_null (Partial_ResumeData.summary data)) None,
     ResumeData.website = or_string_opt (non_null (Partial_ResumeData.website data)) None,
     ResumeData.linkedin = or_string_opt (non_null (Partial_ResumeData.linkedin data)) None,
     ResumeData.education = Some (or_array (non_null (Partial_ResumeData.education data)) []),
     ResumeData.experience = Some (or_array (non_null (Partial_ResumeData.experience data)) []),
     ResumeData.skills = Some (or_array (non_null (Partial_ResumeData.skills data)) []),
     ResumeData.projects = Some (or_array (non_null (Partial_ResumeData.projects data)) []),
     ResumeData.templateStyle = Some (or_string (non_null (Partial_ResumeData.templateStyle data)) ''professional''),
     ResumeData.colorScheme = Some (or_string (non_null (Partial_ResumeData.colorScheme data)) ''blue''),
     ResumeData.targetRole = or_string_opt (non_null (Partial_ResumeData.targetRole data)) None,
     ResumeData.isAtsOptimized = Some (or_bool (non_null (Partial_ResumeData.isAtsOptimized data)) False),
     ResumeData.atsScore = score,
     ResumeData.createdAt = created,
     ResumeData.updatedAt = updated\<rparr>"

text \<open>
  \<^verbatim>\<open>{ ...row, ...data }\<close>, and the effect of \<^verbatim>\<open>.set(data)\<close> on a row: every key present in \<open>data\<close>
  replaces the row's value, a \<^verbatim>\<open>null\<close> included; an absent key leaves it.
\<close>

definition spread_resume :: "ResumeData \<Rightarrow> Partial_ResumeData \<Rightarrow> ResumeData" where
  "spread_resume row data = \<lparr>
     ResumeData.id = nullish (Partial_ResumeData.id data) (ResumeData.id row),
     ResumeData.userId = nullish (Partial_ResumeData.userId data) (ResumeData.userId row),
     ResumeData.firstName = nullish (Partial_ResumeData.firstName data) (ResumeData.firstName row),
     ResumeData.lastName = nullish (Partial_ResumeData.lastName data) (ResumeData.lastName row),
     ResumeData.email = nullish (Partial_ResumeData.email data) (ResumeData.email row),
     ResumeData.phone = nullish (Partial_ResumeData.phone data) (ResumeData.phone row),
     ResumeData.summary = nullish (Partial_ResumeData.summary data) (ResumeData.summary row),
     ResumeData.website = nullish (Partial_ResumeData.website data) (ResumeData.website row),
     ResumeData.linkedin = nullish (Partial_ResumeData.linkedin data) (ResumeData.linkedin row),
     ResumeData.education = nullish (Partial_ResumeData.education data) (ResumeData.education row),
     ResumeData.experience = nullish (Partial_ResumeData.experience data) (ResumeData.experience row),
     ResumeData.skills = nullish (Partial_ResumeData.skills data) (ResumeData.skills row),
     ResumeData.projects = nullish (Partial_ResumeData.projects data) (ResumeData.projects row),
     ResumeData.templateStyle = nullish (Partial_ResumeData.templateStyle data) (ResumeData.templateStyle row),
     ResumeData.colorScheme = nullish (Partial_ResumeData.colorScheme data) (ResumeData.colorScheme row),
     ResumeData.targetRole = nullish (Partial_ResumeData.targetRole data) (ResumeData.targetRole row),
     ResumeData.isAtsOptimized = nullish (Partial_ResumeData.isAtsOptimized data) (ResumeData.isAtsOptimized row),
     ResumeData.atsScore = nullish (Partial_ResumeData.atsScore data) (ResumeData.atsScore row),
     ResumeData.createdAt = nullish (Partial_ResumeData.createdAt data) (ResumeData.createdAt row),
     ResumeData.updatedAt = nullish (Partial_ResumeData.updatedAt data) (ResumeData.updatedAt row)\<rparr>"

subsection \<open>DatabaseStorage\<close>

text \<open>
  The database behind \<^verbatim>\<open>db\<close> is the table \<open>resumes\<close> with the next value of the sequence of its
  \<^verbatim>\<open>serial\<close> primary key, or a database that cannot be reached, on which every query throws.
  An insert gives the new row the next value of the sequence as \<open>id\<close>, the current time as
  \<open>createdAt\<close> and \<open>updatedAt\<close> (\<^verbatim>\<open>defaultNow()\<close>) and \<^verbatim>\<open>null\<close> as \<open>atsScore\<close>, the columns that
  \<open>createResume\<close> does not write; the primary key refuses a second row with the same \<open>id\<close>.
  Ids are integers without bound: the range of the \<^verbatim>\<open>integer\<close> column is not modelled, so an id
  beyond it, on which the query of the real database fails, is here an id that no row carries.
\<close>

record resumes_table =
  rows :: "ResumeData list"
  next_id :: int

datatype database = Unreachable | Connected resumes_table

datatype db_error = ConnectionError | UniqueViolation

definition select_by_id :: "int \<Rightarrow> ResumeData list \<Rightarrow> ResumeData list" where
  "select_by_id i rs = filter (\<lambda>r. ResumeData.id r = i) rs"

text \<open>\<^verbatim>\<open>const [row] = ...\<close>: the first element, or \<^verbatim>\<open>undefined\<close>.\<close>

definition first_of :: "'a list \<Rightarrow> 'a option" where
  "first_of xs = (case xs of [] \<Rightarrow> None | x # _ \<Rightarrow> Some x)"

definition DatabaseStorage_getResume :: "int \<Rightarrow> database \<Rightarrow> db_error + ResumeData option" where
  "DatabaseStorage_getResume i db =
     (case db of
        Unreachable \<Rightarrow> Inl ConnectionError
      | Connected t \<Rightarrow> Inr (first_of (select_by_id i (rows t))))"

definition DatabaseStorage_getResumesByUserId :: "int \<Rightarrow> database \<Rightarrow> db_error + ResumeData list" where
  "DatabaseStorage_getResumesByUserId u db =
     (case db of
        Unreachable \<Rightarrow> Inl ConnectionError
      | Connected t \<Rightarrow> Inr (filter (\<lambda>r. ResumeData.userId r = u) (rows t)))"

definition DatabaseStorage_createResume ::
    "nat \<Rightarrow> Partial_ResumeData \<Rightarrow> database \<Rightarrow> db_error + ResumeData \<times> database" where
  "DatabaseStorage_createResume now data db =
     (case db of
        Unreachable \<Rightarrow> Inl ConnectionError
      | Connected t \<Rightarrow>
          let validData = data\<lparr>Partial_ResumeData.atsScore := None\<rparr>;
              resume = new_resume (next_id t) None (Some now) (Some now) validData
          in if select_by_id (next_id t) (rows t) \<noteq> [] then Inl UniqueViolation
             else Inr (resume, Connected \<lparr>rows = rows t @ [resume], next_id = next_id t + 1\<rparr>))"

text \<open>\<^verbatim>\<open>const { id: _, atsScore, ...validUpdateData } = data\<close>.\<close>

definition validUpdateData :: "Partial_ResumeData \<Rightarrow> Partial_ResumeData" where
  "validUpdateData data = data\<lparr>Partial_ResumeData.id := None, Partial_ResumeData.atsScore := None\<rparr>"

definition DatabaseStorage_updateResume ::
    "nat \<Rightarrow> int \<Rightarrow> Partial_ResumeData \<Rightarrow> database \<Rightarrow> db_error + ResumeData option \<times> database" where
  "DatabaseStorage_updateResume now i data db =
     (case db of
        Unreachable \<Rightarrow> Inl ConnectionError
      | Connected t \<Rightarrow>
          let values = (validUpdateData data)\<lparr>Partial_ResumeData.updatedAt := Some (Some now)\<rparr>;
              rows' = map (\<lambda>r. if ResumeData.id r = i then spread_resume r values else r) (rows t)
          in Inr (first_of (select_by_id i rows'), Connected (t\<lparr>rows := rows'\<rparr>)))"

definition DatabaseStorage_deleteResume :: "int \<Rightarrow> database \<Rightarrow> db_error + bool \<times> database" where
  "DatabaseStorage_deleteResume i db =
     (case db of
        Unreachable \<Rightarrow> Inl ConnectionError
      | Connected t \<Rightarrow>
          Inr (select_by_id i (rows t) \<noteq> [],
               Connected (t\<lparr>rows := filter (\<lambda>r. ResumeData.id r \<noteq> i) (rows t)\<rparr>)))"

definition empty_database :: database where
  "empty_database = Connected \<lparr>rows = [], next_id = 1\<rparr>"

subsection \<open>MemStorage\<close>

text \<open>The map of resumes and its counter; the map of users plays no part in the resume methods.\<close>

record MemStorage =
  resumes :: "int \<rightharpoonup> ResumeData"
  resumeIdCounter :: int

definition MemStorage_new :: MemStorage where
  "MemStorage_new = \<lparr>resumes = Map.empty, resumeIdCounter = 1\<rparr>"

definition MemStorage_getResume :: "int \<Rightarrow> MemStorage \<Rightarrow> ResumeData option" where
  "MemStorage_getResume i st = resumes st i"

definition MemStorage_createResume :: "nat \<Rightarrow> Partial_ResumeData \<Rightarrow> MemStorage \<Rightarrow> ResumeData \<times> MemStorage" where
  "MemStorage_createResume now data st =
     (let i = resumeIdCounter st;
          resume = new_resume i None (Some now) (Some now) data
      in (resume, \<lparr>resumes = (resumes st)(i \<mapsto> resume), resumeIdCounter = resumeIdCounter st + 1\<rparr>))"

definition MemStorage_updateResume ::
    "nat \<Rightarrow> int \<Rightarrow> Partial_ResumeData \<Rightarrow> MemStorage \<Rightarrow> ResumeData option \<times> MemStorage" where
  "MemStorage_updateResume now i data st =
     (case resumes st i of
        None \<Rightarrow> (None, st)
      | Some existingResume \<Rightarrow>
          let updatedResume = (spread_resume existingResume data)\<lparr>ResumeData.updatedAt := Some now\<rparr>
          in (Some updatedResume, st\<lparr>resumes := (resumes st)(i \<mapsto> updatedResume)\<rparr>))"

definition MemStorage_deleteResume :: "int \<Rightarrow> MemStorage \<Rightarrow> bool \<times> MemStorage" where
  "MemStorage_deleteResume i st = (resumes st i \<noteq> None, st\<lparr>resumes := (resumes st)(i := None)\<rparr>)"

text \<open>The empty payload \<^verbatim>\<open>{}\<close>.\<close>

definition no_fields :: Partial_ResumeData where
  "no_fields = \<lparr>
     Partial_ResumeData.id = None, Partial_ResumeData.userId = None,
     Partial_ResumeData.firstName = None, Partial_ResumeData.lastName = None,
     Partial_ResumeData.email = None, Partial_ResumeData.phone = None,
     Partial_ResumeData.summary = None, Partial_ResumeData.website = None,
     Partial_ResumeData.linkedin = None, Partial_ResumeData.education = None,
     Partial_ResumeData.experience = None, Partial_ResumeData.skills = None,
     Partial_ResumeData.projects = None, Partial_ResumeData.templateStyle = None,
     Partial_ResumeData.colorScheme = None, Partial_ResumeData.targetRole = None,
     Partial_ResumeData.isAtsOptimized = None, Partial_ResumeData.atsScore = None,
     Partial_ResumeData.createdAt = None, Partial_ResumeData.updatedAt = None\<rparr>"

section \<open>The route GET /api/resumes/:id (server/routes.ts)\<close>

text \<open>
  \<^verbatim>\<open>parseInt(string)\<close> with no radix, after the language specification: leading white space
  is dropped, then a sign, then the prefix \<^verbatim>\<open>0x\<close> or \<^verbatim>\<open>0X\<close> (which makes the radix 16); the
  number is read from the longest run of digits of the radix that follows, whatever comes
  after it, and the result is \<^verbatim>\<open>NaN\<close> (\<open>None\<close>) only when that run is empty. The number is an
  integer here; the rounding of a long run of digits to a double is not modelled, nor is
  white space outside ASCII.
\<close>

definition isWhiteSpace :: "char \<Rightarrow> bool" where
  "isWhiteSpace c = (c \<in> set [CHR 0x09, CHR 0x0A, CHR 0x0B, CHR 0x0C, CHR 0x0D, CHR '' ''])"

definition digit_of :: "char \<Rightarrow> nat option" where
  "digit_of c =
     (let n = (of_char c :: nat)
      in if 48 \<le> n \<and> n \<le> 57 then Some (n - 48)
         else if 97 \<le> n \<and> n \<le> 122 then Some (n - 87)
         else if 65 \<le> n \<and> n \<le> 90 then Some (n - 55)
         else None)"

definition radix_digit :: "nat \<Rightarrow> char \<Rightarrow> bool" where
  "radix_digit R c = (case digit_of c of None \<Rightarrow> False | Some d \<Rightarrow> d < R)"

definition mathInt :: "nat \<Rightarrow> string \<Rightarrow> nat" where
  "mathInt R Z = foldl (\<lambda>acc c. acc * R + (case digit_of c of None \<Rightarrow> 0 | Some d \<Rightarrow> d)) 0 Z"

definition parseInt :: "string \<Rightarrow> int option" where
  "parseInt string =
     (let S = dropWhile isWhiteSpace string;
          sign = (if take 1 S = ''-'' then - 1 else 1 :: int);
          S = (if take 1 S = ''+'' \<or> take 1 S = ''-'' then drop 1 S else S);
          stripPrefix = (take 2 S = ''0x'' \<or> take 2 S = ''0X'');
          R = (if stripPrefix then 16 else 10);
          S = (if stripPrefix then drop 2 S else S);
          Z = takeWhile (radix_digit R) S
      in if Z = [] then None else Some (sign * int (mathInt R Z)))"

datatype json_body =
  Message string
| Failure string db_error
| ResumeJson ResumeData

record response =
  status :: nat
  json :: json_body

text \<open>The handler, on the path segment \<^verbatim>\<open>req.params.id\<close>; \<^verbatim>\<open>storage\<close> is the \<open>DatabaseStorage\<close>
  that the module exports. \<^verbatim>\<open>res.json\<close> without \<^verbatim>\<open>res.status\<close> answers with status 200.\<close>

definition get_resume_route :: "string \<Rightarrow> database \<Rightarrow> response" where
  "get_resume_route id_param db =
     (case parseInt id_param of
        None \<Rightarrow> \<lparr>status = 400, json = Message ''Invalid resume ID''\<rparr>
      | Some i \<Rightarrow>
          (case DatabaseStorage_getResume i db of
             Inl e \<Rightarrow> \<lparr>status = 500, json = Failure ''Failed to fetch resume'' e\<rparr>
           | Inr None \<Rightarrow> \<lparr>status = 404, json = Message ''Resume not found''\<rparr>
           | Inr (Some resume) \<Rightarrow> \<lparr>status = 200, json = ResumeJson resume\<rparr>))"

text \<open>A path segment is numeric, as the specification uses the word, when it is a non-empty run
  of decimal digits.\<close>

definition numeric :: "string \<Rightarrow> bool" where
  "numeric s = (s \<noteq> [] \<and> list_all (\<lambda>c. c \<in> set ''0123456789'') s)"

section \<open>Removing list entries in the forms (client/src/components/ResumeBuilder)\<close>

text \<open>
  The education, experience and project forms call \<^verbatim>\<open>remove(index)\<close> of React Hook Form's
  \<^verbatim>\<open>useFieldArray\<close> with the position of the entry in the rendered list. The library is not
  part of the repository; its \<^verbatim>\<open>remove\<close> takes the entry at that position out of the array
  (\<^verbatim>\<open>splice(index, 1)\<close> on a copy), and leaves the array as it is when there is no such position.
\<close>

definition useFieldArray_remove :: "nat \<Rightarrow> 'a list \<Rightarrow> 'a list" where
  "useFieldArray_remove index entries = take index entries @ drop (Suc index) entries"

text \<open>\<^verbatim>\<open>const newSkills = skills.filter((_, i) => i !== index)\<close> in \<open>handleRemoveSkill\<close>.\<close>

definition newSkills :: "nat \<Rightarrow> string list \<Rightarrow> string list" where
  "newSkills index skills' =
     map snd (filter (\<lambda>(i, _). i \<noteq> index) (zip [0..<length skills'] skills'))"

text \<open>Removal by identity, as the specification words it: every entry that carries the id goes,
  wherever it stands.\<close>

definition remove_by_id :: "('a \<Rightarrow> string) \<Rightarrow> string \<Rightarrow> 'a list \<Rightarrow> 'a list" where
  "remove_by_id ident i entries = filter (\<lambda>e. ident e \<noteq> i) entries"

section \<open>The repository's round trip, in the specification's words and as amended\<close>

text \<open>
  The user-editable fields of a record read back, against the payload that created it. As the
  specification states it, each field equals the input as supplied, an omitted (or null) field
  being filled with the domain default: \<^verbatim>\<open>null\<close> for the texts, the empty list, the
  professional style, the blue scheme, not optimized.
\<close>

definition supplied_or :: "'a option option \<Rightarrow> 'a \<Rightarrow> 'a" where
  "supplied_or x dflt = (case non_null x of None \<Rightarrow> dflt | Some v \<Rightarrow> v)"

definition fields_as_supplied :: "Partial_ResumeData \<Rightarrow> ResumeData \<Rightarrow> bool" where
  "fields_as_supplied data r =
     (ResumeData.firstName r = non_null (Partial_ResumeData.firstName data)
      \<and> ResumeData.lastName r = non_null (Partial_ResumeData.lastName data)
      \<and> ResumeData.email r = non_null (Partial_ResumeData.email data)
      \<and> ResumeData.phone r = non_null (Partial_ResumeData.phone data)
      \<and> ResumeData.summary r = non_null (Partial_ResumeData.summary data)
      \<and> ResumeData.website r = non_null (Partial_ResumeData.website data)
      \<and> ResumeData.linkedin r = non_null (Partial_ResumeData.linkedin data)
      \<and> ResumeData.education r = Some (supplied_or (Partial_ResumeData.education data) [])
      \<and> ResumeData.experience r = Some (supplied_or (Partial_ResumeData.experience data) [])
      \<and> ResumeData.skills r = Some (supplied_or (Partial_ResumeData.skills data) [])
      \<and> ResumeData.projects r = Some (supplied_or (Partial_ResumeData.projects data) [])
      \<and> ResumeData.templateStyle r = Some (supplied_or (Partial_ResumeData.templateStyle data) ''professional'')
      \<and> ResumeData.colorScheme r = Some (supplied_or (Partial_ResumeData.colorScheme data) ''blue'')
      \<and> ResumeData.targetRole r = non_null (Partial_ResumeData.targetRole data)
      \<and> ResumeData.isAtsOptimized r = Some (supplied_or (Partial_ResumeData.isAtsOptimized data) False))"

text \<open>
  As amended: a text supplied as the empty string counts as not supplied, so that it reads
  back as \<^verbatim>\<open>null\<close> (as the default, for the style and the colour scheme); everything else is as
  above.
\<close>

definition blank_as_absent :: "string option option \<Rightarrow> string option option" where
  "blank_as_absent x = (if x = Some (Some []) then None else x)"

definition fields_as_supplied_nonblank :: "Partial_ResumeData \<Rightarrow> ResumeData \<Rightarrow> bool" where
  "fields_as_supplied_nonblank data r =
     fields_as_supplied
       (data\<lparr>Partial_ResumeData.firstName := blank_as_absent (Partial_ResumeData.firstName data),
             Partial_ResumeData.lastName := blank_as_absent (Partial_ResumeData.lastName data),
             Partial_ResumeData.email := blank_as_absent (Partial_ResumeData.email data),
             Partial_ResumeData.phone := blank_as_absent (Partial_ResumeData.phone data),
             Partial_ResumeData.summary := blank_as_absent (Partial_ResumeData.summary data),
             Partial_ResumeData.website := blank_as_absent (Partial_ResumeData.website data),
             Partial_ResumeData.linkedin := blank_as_absent (Partial_ResumeData.linkedin data),
             Partial_ResumeData.templateStyle := blank_as_absent (Partial_ResumeData.templateStyle data),
             Partial_ResumeData.colorScheme := blank_as_absent (Partial_ResumeData.colorScheme data),
             Partial_ResumeData.targetRole := blank_as_absent (Partial_ResumeData.targetRole data)\<rparr>)
       r"

section \<open>Update by id, in the specification's words\<close>

text \<open>
  What an update promises for one field: a field that the payload does not carry is left as
  it was, and a field that the payload carries takes the payload's value (\<^verbatim>\<open>null\<close> included).
\<close>

definition field_written :: "'a option \<Rightarrow> 'a \<Rightarrow> 'a \<Rightarrow> bool" where
  "field_written payload before after = (case payload of None \<Rightarrow> after = before | Some v \<Rightarrow> after = v)"

text \<open>
  The same for a whole record, over every column but the three that the update treats on
  their own: \<open>id\<close> and \<open>atsScore\<close>, which the payload may not touch, and \<open>updatedAt\<close>, which every
  update sets.
\<close>

definition only_provided_fields_change :: "Partial_ResumeData \<Rightarrow> ResumeData \<Rightarrow> ResumeData \<Rightarrow> bool" where
  "only_provided_fields_change data before after =
     (field_written (Partial_ResumeData.userId data) (ResumeData.userId before) (ResumeData.userId after)
      \<and> field_written (Partial_ResumeData.firstName data) (ResumeData.firstName before) (ResumeData.firstName after)
      \<and> field_written (Partial_ResumeData.lastName data) (ResumeData.lastName before) (ResumeData.lastName after)
      \<and> field_written (Partial_ResumeData.email data) (ResumeData.email before) (ResumeData.email after)
      \<and> field_written (Partial_ResumeData.phone data) (ResumeData.phone before) (ResumeData.phone after)
      \<and> field_written (Partial_ResumeData.summary data) (ResumeData.summary before) (ResumeData.summary after)
      \<and> field_written (Partial_ResumeData.website data) (ResumeData.website before) (ResumeData.website after)
      \<and> field_written (Partial_ResumeData.linkedin data) (ResumeData.linkedin before) (ResumeData.linkedin after)
      \<and> field_written (Partial_ResumeData.education data) (ResumeData.education before) (ResumeData.education after)
      \<and> field_written (Partial_ResumeData.experience data) (ResumeData.experience before) (ResumeData.experience after)
      \<and> field_written (Partial_ResumeData.skills data) (ResumeData.skills before) (ResumeData.skills after)
      \<and> field_written (Partial_ResumeData.projects data) (ResumeData.projects before) (ResumeData.projects after)
      \<and> field_written (Partial_ResumeData.templateStyle data) (ResumeData.templateStyle before) (ResumeData.templateStyle after)
      \<and> field_written (Partial_ResumeData.colorScheme data) (ResumeData.colorScheme before) (ResumeData.colorScheme after)
      \<and> field_written (Partial_ResumeData.targetRole data) (ResumeData.targetRole before) (ResumeData.targetRole after)
      \<and> field_written (Partial_ResumeData.isAtsOptimized data) (ResumeData.isAtsOptimized before) (ResumeData.isAtsOptimized after)
      \<and> field_written (Partial_ResumeData.createdAt data) (ResumeData.createdAt before) (ResumeData.createdAt after))"

text \<open>
  A payload that carries an \<open>id\<close>, a score and a first name, and nothing else:
  \<^verbatim>\<open>{ id: 7, atsScore: 90, firstName: "Ana" }\<close>.
\<close>

definition example_update :: Partial_ResumeData where
  "example_update = no_fields\<lparr>Partial_ResumeData.id := Some 7,
     Partial_ResumeData.atsScore := Some (Some 90),
     Partial_ResumeData.firstName := Some (Some ''Ana'')\<rparr>"

section \<open>The builder page and its forms (client/src/pages/ResumeBuilder.tsx)\<close>

text \<open>
  The state of the page: the in-memory draft \<^verbatim>\<open>resumeData\<close> and the browser's storage, and the
  state of the forms: the value of the field array of the education, experience and project
  forms (\<^verbatim>\<open>form.getValues()\<close>) and the \<^verbatim>\<open>skills\<close> state of the skills form. A form exists only
  while its tab is the active one; it takes its first value from the draft when its tab is
  opened.
\<close>

record builder =
  resumeData :: Resume
  storage :: localStorage
  education_form :: "EducationItem list"
  experience_form :: "ExperienceItem list"
  projects_form :: "ProjectItem list"
  skills_state :: "string list"






text \<open>
  The update handlers of the sections. Each sets the section in the draft and then writes it
  to the storage; the update of the draft stands when the write throws, so the result is the
  error that leaves the handler, if any, and the page.
\<close>

definition written :: "builder \<Rightarrow> error + localStorage \<Rightarrow> error option \<times> builder" where
  "written b r = (case r of Inl e \<Rightarrow> (Some e, b) | Inr ls \<Rightarrow> (None, b\<lparr>storage := ls\<rparr>))"

definition handleEducationSave :: "nat \<Rightarrow> EducationItem list \<Rightarrow> builder \<Rightarrow> error option \<times> builder" where
  "handleEducationSave now data b =
     written (b\<lparr>resumeData := (resumeData b)\<lparr>Resume.education := data\<rparr>\<rparr>)
       (saveResumeToLocalStorage now (no_keys\<lparr>Partial_Resume.education := Some data\<rparr>) (storage b))"

definition handleExperienceSave :: "nat \<Rightarrow> ExperienceItem list \<Rightarrow> builder \<Rightarrow> error option \<times> builder" where
  "handleExperienceSave now data b =
     written (b\<lparr>resumeData := (resumeData b)\<lparr>Resume.experience := data\<rparr>\<rparr>)
       (saveResumeToLocalStorage now (no_keys\<lparr>Partial_Resume.experience := Some data\<rparr>) (storage b))"

definition handleSkillsSave :: "nat \<Rightarrow> string list \<Rightarrow> builder \<Rightarrow> error option \<times> builder" where
  "handleSkillsSave now data b =
     written (b\<lparr>resumeData := (resumeData b)\<lparr>Resume.skills := data\<rparr>\<rparr>)
       (saveResumeToLocalStorage now (no_keys\<lparr>Partial_Resume.skills := Some data\<rparr>) (storage b))"

definition handleProjectsSave :: "nat \<Rightarrow> ProjectItem list \<Rightarrow> builder \<Rightarrow> error option \<times> builder" where
  "handleProjectsSave now data b =
     written (b\<lparr>resumeData := (resumeData b)\<lparr>Resume.projects := data\<rparr>\<rparr>)
       (saveResumeToLocalStorage now (no_keys\<lparr>Partial_Resume.projects := Some data\<rparr>) (storage b))"

subsection \<open>EducationForm, ExperienceForm and SkillsForm\<close>




text \<open>\<open>handleFormChange\<close>, the \<^verbatim>\<open>onChange\<close> of each \<^verbatim>\<open><form>\<close>: it runs when the user changes an input
  of the form, and hands the form's value to the page.\<close>

definition EducationForm_handleFormChange :: "nat \<Rightarrow> builder \<Rightarrow> error option \<times> builder" where
  "EducationForm_handleFormChange now b = handleEducationSave now (education_form b) b"

definition ExperienceForm_handleFormChange :: "nat \<Rightarrow> builder \<Rightarrow> error option \<times> builder" where
  "ExperienceForm_handleFormChange now b = handleExperienceSave now (experience_form b) b"

definition SkillsForm_handleFormChange :: "nat \<Rightarrow> builder \<Rightarrow> error option \<times> builder" where
  "SkillsForm_handleFormChange now b = handleProjectsSave now (projects_form b) b"

text \<open>The Remove button of an entry, \<^verbatim>\<open>onClick={() => remove(index)}\<close>: the click changes the
  field array and calls nothing else.\<close>

definition EducationForm_remove :: "nat \<Rightarrow> builder \<Rightarrow> builder" where
  "EducationForm_remove index b = b\<lparr>education_form := useFieldArray_remove index (education_form b)\<rparr>"

definition ExperienceForm_remove :: "nat \<Rightarrow> builder \<Rightarrow> builder" where
  "ExperienceForm_remove index b = b\<lparr>experience_form := useFieldArray_remove index (experience_form b)\<rparr>"

definition SkillsForm_remove :: "nat \<Rightarrow> builder \<Rightarrow> builder" where
  "SkillsForm_remove index b = b\<lparr>projects_form := useFieldArray_remove index (projects_form b)\<rparr>"

text \<open>\<open>handleRemoveSkill\<close>, the button of a skill: \<^verbatim>\<open>setSkills(newSkills); onSaveSkills(newSkills)\<close>.\<close>

definition handleRemoveSkill :: "nat \<Rightarrow> nat \<Rightarrow> builder \<Rightarrow> error option \<times> builder" where
  "handleRemoveSkill now index b =
     handleSkillsSave now (newSkills index (skills_state b))
       (b\<lparr>skills_state := newSkills index (skills_state b)\<rparr>)"


section \<open>The Local Draft Store: what load returns\<close>

text \<open>
  C10. The fixed default draft has \<open>isAtsOptimized\<close> set to true: it is what
  \<open>getResumeFromLocalStorage\<close> returns on a store never written and on a store whose content
  does not parse, and the builder's first in-memory draft carries the same flag, so a draft on
  which no optimization has run is already flagged as optimized.
\<close>

theorem default_draft_flagged_optimized:
  "SavedResumeData.isAtsOptimized defaultData = True
   \<and> getResumeFromLocalStorage (Slots (m(STORAGE_KEY := None))) = Inr defaultData
   \<and> getResumeFromLocalStorage (Slots (m(STORAGE_KEY \<mapsto> Unparsable s))) = Inr defaultData
   \<and> Resume.isAtsOptimized initial_resumeData = Some True"
  by (simp add: defaultData_def getResumeFromLocalStorage_def getResume_try_def getItem_def
      JSON_parse_def initial_resumeData_def)

text \<open>
  C2. A stored value that cannot be read (the storage throws) or does not parse
  (\<^verbatim>\<open>JSON.parse\<close> throws) makes \<open>getResumeFromLocalStorage\<close> return the fixed default draft: the
  failure is caught inside, and the call returns (\<open>Inr\<close>) instead of throwing.
\<close>

theorem load_corrupted_returns_default:
  assumes "getItem ls STORAGE_KEY = Inl e
           \<or> (\<exists>c. getItem ls STORAGE_KEY = Inr (Some c) \<and> JSON_parse c = Inl e)"
  shows "getResumeFromLocalStorage ls = Inr defaultData"
  using assms
  by (auto simp: getResumeFromLocalStorage_def getResume_try_def split: sum.splits option.splits)

theorem load_corrupted_returns_default_witness:
  "JSON_parse (Unparsable ''{personalInfo:'') = Inl SyntaxError
   \<and> getResumeFromLocalStorage (Slots [STORAGE_KEY \<mapsto> Unparsable ''{personalInfo:'']) = Inr defaultData
   \<and> getItem Unavailable STORAGE_KEY = Inl StorageError
   \<and> getResumeFromLocalStorage Unavailable = Inr defaultData"
  using load_corrupted_returns_default [of "Slots [STORAGE_KEY \<mapsto> Unparsable ''{personalInfo:'']" SyntaxError]
    load_corrupted_returns_default [of Unavailable StorageError]
  by (simp add: JSON_parse_def getItem_def)

text \<open>
  Every draft that load returns carries a target role, and so does every draft a save builds
  from it; such a draft is read back as it was written.
\<close>

lemma load_has_targetRole:
  "getResumeFromLocalStorage ls = Inr d \<Longrightarrow> SavedResumeData.targetRole d \<noteq> None"
  by (auto simp: getResumeFromLocalStorage_def getResume_try_def spread_parsed_def defaultData_def
      split: sum.splits option.splits if_splits)

lemma updatedData_has_targetRole:
  "SavedResumeData.targetRole cur \<noteq> None \<Longrightarrow>
   SavedResumeData.targetRole (updatedData now data cur) \<noteq> None"
  by (simp add: updatedData_def or_string_opt_def split: option.splits)

lemma load_after_setItem:
  "SavedResumeData.targetRole d \<noteq> None \<Longrightarrow>
   getResumeFromLocalStorage (Slots (m(STORAGE_KEY \<mapsto> JSON_stringify d))) = Inr d"
  by (auto simp: getResumeFromLocalStorage_def getResume_try_def getItem_def JSON_stringify_def
      JSON_parse_def spread_parsed_def nullish_def)

lemma save_on_slots:
  "getResumeFromLocalStorage (Slots m) = Inr cur \<Longrightarrow>
   saveResumeToLocalStorage now data (Slots m) =
     Inr (Slots (m(STORAGE_KEY \<mapsto> JSON_stringify (updatedData now data cur))))"
  by (simp add: saveResumeToLocalStorage_def setItem_def)

lemma updatedData_eq_merge:
  "updatedData now data cur = merge_nonempty_strings now data cur"
  by (cases "Partial_Resume.templateStyle data"; cases "Partial_Resume.colorScheme data";
      cases "Partial_Resume.targetRole data"; cases "Partial_Resume.personalInfo data")
     (simp_all add: updatedData_def merge_nonempty_strings_def merge_as_specified_def
        replaced_if_nonempty_def or_array_def or_string_def or_string_opt_def nullish_def spread_personalInfo_def
        split: option.splits)

lemma two_saves_then_load:
  assumes "getResumeFromLocalStorage (Slots m) = Inr cur"
  shows "and_then (saveResumeToLocalStorage t1 D1 (Slots m))
       (\<lambda>s1. and_then (saveResumeToLocalStorage t2 D2 s1) getResumeFromLocalStorage)
     = Inr (merge_nonempty_strings t2 D2 (merge_nonempty_strings t1 D1 cur))"
proof -
  let ?d1 = "updatedData t1 D1 cur"
  let ?m1 = "m(STORAGE_KEY \<mapsto> JSON_stringify ?d1)"
  let ?d2 = "updatedData t2 D2 ?d1"
  have t1: "SavedResumeData.targetRole ?d1 \<noteq> None"
    using assms by (intro updatedData_has_targetRole load_has_targetRole)
  have s1: "saveResumeToLocalStorage t1 D1 (Slots m) = Inr (Slots ?m1)"
    using assms by (rule save_on_slots)
  have l1: "getResumeFromLocalStorage (Slots ?m1) = Inr ?d1"
    using t1 by (rule load_after_setItem)
  have s2: "saveResumeToLocalStorage t2 D2 (Slots ?m1) =
      Inr (Slots (?m1(STORAGE_KEY \<mapsto> JSON_stringify ?d2)))"
    using l1 by (rule save_on_slots)
  have t2: "SavedResumeData.targetRole ?d2 \<noteq> None"
    using t1 by (rule updatedData_has_targetRole)
  have l2: "getResumeFromLocalStorage (Slots (?m1(STORAGE_KEY \<mapsto> JSON_stringify ?d2))) = Inr ?d2"
    using t2 by (rule load_after_setItem)
  have "and_then (saveResumeToLocalStorage t1 D1 (Slots m))
       (\<lambda>s1. and_then (saveResumeToLocalStorage t2 D2 s1) getResumeFromLocalStorage) = Inr ?d2"
    by (simp only: and_then_def s1 s2 l2 sum.case)
  then show ?thesis
    by (simp only: updatedData_eq_merge)
qed

text \<open>
  C1, as amended. After two partial drafts are saved in sequence to a store whose slot was
  never written, load returns the second merged over the first merged over the fixed defaults:
  \<open>personalInfo\<close> key by key, arrays and the boolean replaced whenever present (an empty array
  and \<open>false\<close> included), and a top-level string replaced when present and not empty, an empty
  one keeping the prior value as an absent one does. From a store written before, the same
  holds with the draft that load returned before the saves in place of the defaults.
\<close>

theorem load_after_two_saves:
  "and_then (saveResumeToLocalStorage t1 D1 (Slots (m(STORAGE_KEY := None))))
     (\<lambda>s1. and_then (saveResumeToLocalStorage t2 D2 s1) getResumeFromLocalStorage)
   = Inr (merge_nonempty_strings t2 D2 (merge_nonempty_strings t1 D1 defaultData))
   \<and> and_then (saveResumeToLocalStorage t1 D1 (Slots m))
     (\<lambda>s1. and_then (saveResumeToLocalStorage t2 D2 s1) getResumeFromLocalStorage)
   = and_then (getResumeFromLocalStorage (Slots m))
       (\<lambda>cur. Inr (merge_nonempty_strings t2 D2 (merge_nonempty_strings t1 D1 cur)))"
proof -
  have fresh: "getResumeFromLocalStorage (Slots (m(STORAGE_KEY := None))) = Inr defaultData"
    by (simp add: getResumeFromLocalStorage_def getResume_try_def getItem_def)
  obtain cur where cur: "getResumeFromLocalStorage (Slots m) = Inr cur"
    by (cases "getResume_try (Slots m)") (simp_all add: getResumeFromLocalStorage_def)
  show ?thesis
    using two_saves_then_load [OF fresh] two_saves_then_load [OF cur]
    by (simp add: cur and_then_def)
qed

text \<open>
  C1, as stated, fails: a target role saved as the empty string does not replace the role
  saved before it.
\<close>

theorem load_after_two_saves_counterexample:
  "and_then (saveResumeToLocalStorage 1 (no_keys\<lparr>Partial_Resume.targetRole := Some ''Nurse''\<rparr>) (Slots Map.empty))
     (\<lambda>s1. and_then (saveResumeToLocalStorage 2 (no_keys\<lparr>Partial_Resume.targetRole := Some ''''\<rparr>) s1)
        getResumeFromLocalStorage)
   \<noteq> Inr (merge_as_specified 2 (no_keys\<lparr>Partial_Resume.targetRole := Some ''''\<rparr>)
          (merge_as_specified 1 (no_keys\<lparr>Partial_Resume.targetRole := Some ''Nurse''\<rparr>) defaultData))"
  by (simp add: and_then_def saveResumeToLocalStorage_def getResumeFromLocalStorage_def
      getResume_try_def getItem_def setItem_def JSON_parse_def JSON_stringify_def spread_parsed_def
      updatedData_def merge_as_specified_def no_keys_def defaultData_def STORAGE_KEY_def
      or_array_def or_string_def or_string_opt_def nullish_def spread_personalInfo_def)

section \<open>The simulated service: optimization and cover letter\<close>

text \<open>
  C4. For every input text and target role, \<open>optimizeForATS\<close> returns an optimized text that
  starts with the input text and ends with an annotation block appended to it, so that it is
  never the input text alone. When a target role is given (a non-empty string) the block is
  the role-specific one, which names the role in its heading and in three of its lines; when
  none is given it is the generic block. The score is an integer from 65 to 95 for every
  value the random draw can take.
\<close>

theorem optimizeForATS_contract:
  assumes "0 \<le> random" and "random < 1"
  shows "prefix resumeText (OptimizeResult.optimizedText (optimizeForATS random resumeText role))
    \<and> OptimizeResult.optimizedText (optimizeForATS random resumeText role) \<noteq> resumeText
    \<and> (role = None \<or> role = Some [] \<longrightarrow>
          OptimizeResult.optimizedText (optimizeForATS random resumeText role)
          = resumeText @ ''\<newline>\<newline>[ATS Optimized]\<newline>- Added relevant keywords\<newline>- Improved formatting\<newline>- Enhanced readability for ATS systems'')
    \<and> (\<forall>r. role = Some r \<and> r \<noteq> [] \<longrightarrow>
          OptimizeResult.optimizedText (optimizeForATS random resumeText role)
          = resumeText @ ''\<newline>\<newline>[ATS Optimized for '' @ r @ '']\<newline>- Added '' @ r
              @ ''-specific keywords\<newline>- Highlighted relevant skills for '' @ r
              @ ''\<newline>- Reordered experience to emphasize '' @ r
              @ '' qualifications\<newline>- Improved formatting for ATS systems''
          \<and> sublist (''[ATS Optimized for '' @ r @ '']'')
                (OptimizeResult.optimizedText (optimizeForATS random resumeText role)))
    \<and> 65 \<le> OptimizeResult.atsScore (optimizeForATS random resumeText role)
    \<and> OptimizeResult.atsScore (optimizeForATS random resumeText role) \<le> 95"
proof -
  have "0 \<le> random * 31" and "random * 31 < 31"
    using assms by simp_all
  then have "0 \<le> \<lfloor>random * 31\<rfloor>" and "\<lfloor>random * 31\<rfloor> \<le> 30"
    by (simp_all add: floor_le_iff)
  then have score: "65 \<le> OptimizeResult.atsScore (optimizeForATS random resumeText role)"
      "OptimizeResult.atsScore (optimizeForATS random resumeText role) \<le> 95"
    by (simp_all add: optimizeForATS_def)
  have out: "OptimizeResult.optimizedText (optimizeForATS random resumeText ro) = resumeText @ roleSpecificText ro" for ro
    by (simp add: optimizeForATS_def)
  have generic: "roleSpecificText role = ''\<newline>\<newline>[ATS Optimized]\<newline>- Added relevant keywords\<newline>- Improved formatting\<newline>- Enhanced readability for ATS systems''"
    if "role = None \<or> role = Some []"
    using that by (auto simp: roleSpecificText_def)
  have specific: "roleSpecificText (Some r) = ''\<newline>\<newline>[ATS Optimized for '' @ r @ '']\<newline>- Added '' @ r
              @ ''-specific keywords\<newline>- Highlighted relevant skills for '' @ r
              @ ''\<newline>- Reordered experience to emphasize '' @ r
              @ '' qualifications\<newline>- Improved formatting for ATS systems''"
    if "r \<noteq> []" for r
    using that by (simp add: roleSpecificText_def)
  have heading: "sublist (''[ATS Optimized for '' @ r @ '']'') (resumeText @ roleSpecificText (Some r))"
    if "r \<noteq> []" for r
  proof -
    have "resumeText @ roleSpecificText (Some r) = (resumeText @ ''\<newline>\<newline>'') @ (''[ATS Optimized for '' @ r @ '']'')
        @ (''\<newline>- Added '' @ r
              @ ''-specific keywords\<newline>- Highlighted relevant skills for '' @ r
              @ ''\<newline>- Reordered experience to emphasize '' @ r
              @ '' qualifications\<newline>- Improved formatting for ATS systems'')"
      by (simp add: specific [OF that])
    then show ?thesis
      by (simp only: sublist_appendI)
  qed
  have appended: "roleSpecificText role \<noteq> []"
    by (cases role) (simp_all add: roleSpecificText_def)
  have c1: "prefix resumeText (OptimizeResult.optimizedText (optimizeForATS random resumeText role))"
    and c2: "OptimizeResult.optimizedText (optimizeForATS random resumeText role) \<noteq> resumeText"
    using appended by (simp_all add: out)
  have c3: "OptimizeResult.optimizedText (optimizeForATS random resumeText role)
          = resumeText @ ''\<newline>\<newline>[ATS Optimized]\<newline>- Added relevant keywords\<newline>- Improved formatting\<newline>- Enhanced readability for ATS systems''"
    if "role = None \<or> role = Some []"
    by (simp only: out generic [OF that])
  have c4: "OptimizeResult.optimizedText (optimizeForATS random resumeText role)
          = resumeText @ ''\<newline>\<newline>[ATS Optimized for '' @ r @ '']\<newline>- Added '' @ r
              @ ''-specific keywords\<newline>- Highlighted relevant skills for '' @ r
              @ ''\<newline>- Reordered experience to emphasize '' @ r
              @ '' qualifications\<newline>- Improved formatting for ATS systems''
          \<and> sublist (''[ATS Optimized for '' @ r @ '']'')
                (OptimizeResult.optimizedText (optimizeForATS random resumeText role))"
    if "role = Some r \<and> r \<noteq> []" for r
  proof -
    from that have r: "role = Some r" and ne: "r \<noteq> []"
      by simp_all
    show ?thesis
      using heading [OF ne] by (simp only: out r specific [OF ne] simp_thms)
  qed
  show ?thesis
    using c1 c2 c3 c4 score by blast
qed

theorem optimizeForATS_contract_witness:
  "(0::real) \<le> 1 / 2 \<and> (1::real) / 2 < 1
   \<and> OptimizeResult.optimizedText (optimizeForATS (1 / 2) ''Jane Doe'' (Some ''Nurse''))
       = ''Jane Doe\<newline>\<newline>[ATS Optimized for Nurse]\<newline>- Added Nurse-specific keywords\<newline>- Highlighted relevant skills for Nurse\<newline>- Reordered experience to emphasize Nurse qualifications\<newline>- Improved formatting for ATS systems''
   \<and> OptimizeResult.optimizedText (optimizeForATS (1 / 2) ''Jane Doe'' None)
       = ''Jane Doe\<newline>\<newline>[ATS Optimized]\<newline>- Added relevant keywords\<newline>- Improved formatting\<newline>- Enhanced readability for ATS systems''
   \<and> 65 \<le> OptimizeResult.atsScore (optimizeForATS (1 / 2) ''Jane Doe'' (Some ''Nurse''))
   \<and> OptimizeResult.atsScore (optimizeForATS (1 / 2) ''Jane Doe'' (Some ''Nurse'')) \<le> 95"
  using optimizeForATS_contract [where random = "1 / 2" and resumeText = "''Jane Doe''" and role = "Some ''Nurse''"]
    optimizeForATS_contract [where random = "1 / 2" and resumeText = "''Jane Doe''" and role = None]
  by simp

text \<open>
  C5. For every resume text and target role, the cover letter generated for the company
  \<open>Acme\<close> holds the literal \<open>Dear Acme Hiring Team,\<close> (it starts with it) and the literal
  \<open>[Your Name]\<close> (it ends with it); with no company name the greeting is the literal
  \<open>Dear Hiring Manager,\<close>; and only the greeting and the closing paragraph depend on the
  company name: what stands between them and after them is the same for every company name,
  while the closing paragraph with a company name differs from the one without.
\<close>

theorem generateCoverLetter_contract:
  "sublist ''Dear Acme Hiring Team,'' (generateCoverLetter resumeText role (Some ''Acme''))
   \<and> prefix ''Dear Acme Hiring Team,'' (generateCoverLetter resumeText role (Some ''Acme''))
   \<and> sublist ''[Your Name]'' (generateCoverLetter resumeText role companyName)
   \<and> suffix ''[Your Name]'' (generateCoverLetter resumeText role companyName)
   \<and> greeting None = ''Dear Hiring Manager,''
   \<and> greeting (Some ''Acme'') = ''Dear Acme Hiring Team,''
   \<and> prefix ''Dear Hiring Manager,'' (generateCoverLetter resumeText role None)
   \<and> closing None = ''I would welcome the opportunity to discuss how my qualifications align with your needs for this position.''
   \<and> closing (Some ''Acme'') = ''I am particularly drawn to Acme because of your reputation for innovation and excellence in the industry. I would welcome the opportunity to discuss how my qualifications align with your needs.''
   \<and> closing None \<noteq> closing (Some ''Acme'')
   \<and> (\<exists>middle rest. \<forall>c. generateCoverLetter resumeText role c
          = greeting c @ middle @ closing c @ rest)"
proof -
  let ?tail = "''\<newline>\<newline>Thank you for considering my application. I look forward to the possibility of working with your team.\<newline>\<newline>Sincerely,\<newline>''"
  have shape: "generateCoverLetter resumeText role c =
      greeting c @ (''\<newline>\<newline>'' @ introduction role @ ''\<newline>\<newline>'' @ body @ ''\<newline>\<newline>'')
      @ closing c @ (?tail @ ''[Your Name]'')" for c
    by (simp add: generateCoverLetter_def)
  have acme: "prefix ''Dear Acme Hiring Team,'' (generateCoverLetter resumeText role (Some ''Acme''))"
    by (simp add: generateCoverLetter_def greeting_def)
  have none: "prefix ''Dear Hiring Manager,'' (generateCoverLetter resumeText role None)"
    by (simp add: generateCoverLetter_def greeting_def)
  have name: "suffix ''[Your Name]'' (generateCoverLetter resumeText role companyName)"
    unfolding shape [of companyName] suffix_def
    by (rule exI [of _ "greeting companyName @ (''\<newline>\<newline>'' @ introduction role @ ''\<newline>\<newline>'' @ body @ ''\<newline>\<newline>'') @ closing companyName @ ?tail"]) simp
  have parts: "\<exists>middle rest. \<forall>c. generateCoverLetter resumeText role c
          = greeting c @ middle @ closing c @ rest"
    using shape by blast
  have paragraphs: "greeting None = ''Dear Hiring Manager,''"
    "greeting (Some ''Acme'') = ''Dear Acme Hiring Team,''"
    "closing None = ''I would welcome the opportunity to discuss how my qualifications align with your needs for this position.''"
    "closing (Some ''Acme'') = ''I am particularly drawn to Acme because of your reputation for innovation and excellence in the industry. I would welcome the opportunity to discuss how my qualifications align with your needs.''"
    "closing None \<noteq> closing (Some ''Acme'')"
    by (simp_all add: greeting_def closing_def)
  show ?thesis
    using acme none name parts paragraphs
    by (intro conjI) simp_all
qed

section \<open>The Text Projection: headings and sections\<close>

text \<open>A character that does not occur in a word separates the texts on its two sides: the
  word occurs in the whole only if it occurs on one side.\<close>

lemma prefix_sep:
  "c \<notin> set w \<Longrightarrow> prefix w (c # b) \<longleftrightarrow> w = []"
  by (cases w) auto

lemma sublist_sep:
  assumes "c \<notin> set w"
  shows "sublist w (a @ c # b) \<longleftrightarrow> sublist w a \<or> sublist w b"
proof
  assume "sublist w (a @ c # b)"
  then consider "sublist w a" | "sublist w (c # b)"
    | xs1 xs2 where "w = xs1 @ xs2" "suffix xs1 a" "prefix xs2 (c # b)"
    unfolding sublist_append by blast
  then show "sublist w a \<or> sublist w b"
  proof cases
    case 2
    then show ?thesis
      using assms by (auto simp: sublist_Cons_right prefix_sep)
  next
    case 3
    then have "xs2 = []"
      using assms prefix_sep [of c xs2 b] by auto
    with 3 show ?thesis
      by (auto intro: suffix_imp_sublist)
  qed simp
next
  assume "sublist w a \<or> sublist w b"
  then show "sublist w (a @ c # b)"
    by (auto simp: sublist_append sublist_Cons_right)
qed

lemma foldl_add_experience:
  "foldl add_experience t xs = t @ concat (map (add_experience []) xs)"
  by (induction xs arbitrary: t) (simp_all add: add_experience_def Let_def)

lemma foldl_add_education:
  "foldl add_education t xs = t @ concat (map (add_education []) xs)"
  by (induction xs arbitrary: t) (simp_all add: add_education_def Let_def)

lemma foldl_add_project:
  "foldl add_project t xs = t @ concat (map (add_project []) xs)"
  by (induction xs arbitrary: t) (simp_all add: add_project_def Let_def split: option.splits)

lemma stage_opt_line:
  "(case a of None \<Rightarrow> t | Some w \<Rightarrow> if w = [] then t else t @ f w)
   = t @ (case a of None \<Rightarrow> [] | Some w \<Rightarrow> if w = [] then [] else f w)"
  by (simp split: option.splits)

lemma stage_experience:
  "(if length xs > 0 then foldl add_experience (t @ ''EXPERIENCE\<newline>'') xs else t)
   = t @ concat (section_blocks ''EXPERIENCE'' (map (add_experience []) xs))"
  by (simp add: section_blocks_def foldl_add_experience)

lemma stage_education:
  "(if length xs > 0 then foldl add_education (t @ ''EDUCATION\<newline>'') xs else t)
   = t @ concat (section_blocks ''EDUCATION'' (map (add_education []) xs))"
  by (simp add: section_blocks_def foldl_add_education)

lemma stage_skills:
  "(if length xs > 0 then (t @ ''SKILLS\<newline>'') @ join '', '' xs @ ''\<newline>\<newline>'' else t)
   = t @ concat (section_blocks ''SKILLS'' (if xs = [] then [] else [join '', '' xs @ ''\<newline>\<newline>'']))"
  by (simp add: section_blocks_def)

lemma stage_projects:
  "(if length xs > 0 then foldl add_project (t @ ''PROJECTS\<newline>'') xs else t)
   = t @ concat (section_blocks ''PROJECTS'' (map (add_project []) xs))"
  by (simp add: section_blocks_def foldl_add_project)

lemma resumeToText_blocks: "resumeToText d = concat (text_blocks d)"
  unfolding resumeToText_def Let_def stage_experience stage_education stage_skills stage_projects
    stage_opt_line text_blocks_def header_block_def
  by (simp only: append_assoc concat_append concat.simps append_Nil2 append_Nil)

lemma no_sublist_concat:
  assumes "c \<notin> set w" and "w \<noteq> []"
    and "\<forall>b \<in> set bs. \<not> sublist w b \<and> (b = [] \<or> last b = c)"
  shows "\<not> sublist w (concat bs)"
  using assms(3)
proof (induction bs)
  case Nil
  then show ?case using assms(2) by simp
next
  case (Cons b bs)
  show ?case
  proof (cases "b = []")
    case True
    then show ?thesis using Cons by simp
  next
    case False
    then have "butlast b @ [last b] = b" and "last b = c"
      using Cons.prems by auto
    then obtain b' where b: "b = b' @ [c]"
      by metis
    have "\<not> sublist w b'"
      using Cons.prems b by (auto simp: sublist_append)
    then show ?thesis
      using Cons b assms(1) by (simp add: sublist_sep)
  qed
qed

lemma block_sublist_concat:
  assumes "b \<in> set bs"
  shows "sublist b (concat bs)"
proof -
  obtain ys zs where "bs = ys @ b # zs"
    using assms by (auto dest: split_list)
  then have "concat bs = concat ys @ b @ concat zs"
    by simp
  then show ?thesis
    by (simp only: sublist_appendI)
qed

lemma clean_or_string:
  "w \<noteq> [] \<Longrightarrow> list_all (\<lambda>s. \<not> sublist w s) (opt_string a) \<Longrightarrow> \<not> sublist w (or_string a [])"
  by (cases a) (auto simp: opt_string_def or_string_def)

lemma header_clean:
  assumes "w \<in> set headings"
    and "list_all (\<lambda>s. \<not> sublist w s) (personal_strings p)"
  shows "clean_block w (header_block p)"
proof -
  have 1: "\<not> sublist w (or_string (PersonalInfo.phone p) [])" "\<not> sublist w (or_string (PersonalInfo.summary p) [])"
    using assms by (auto simp: headings_def personal_strings_def opt_string_def or_string_def split: option.splits)
  have 2: "\<not> sublist w (PersonalInfo.firstName p)" "\<not> sublist w (PersonalInfo.lastName p)" "\<not> sublist w (PersonalInfo.email p)"
    "\<And>s. PersonalInfo.website p = Some s \<Longrightarrow> \<not> sublist w s"
    "\<And>s. PersonalInfo.linkedin p = Some s \<Longrightarrow> \<not> sublist w s"
    using assms(2) by (auto simp: personal_strings_def opt_string_def)
  have "\<not> sublist w (header_block p)"
    using assms(1) 1 2
    by (auto simp: headings_def header_block_def sublist_sep sublist_Cons_right split: option.splits)
  moreover have "last (header_block p) = CHR 0x0A"
    by (simp add: header_block_def)
  ultimately show ?thesis
    by (simp add: clean_block_def)
qed

lemma experience_clean:
  assumes "w \<in> set headings"
    and "list_all (\<lambda>s. \<not> sublist w s) (experience_strings x)"
  shows "clean_block w (add_experience [] x)"
proof -
  have 1: "\<not> sublist w (or_string (ExperienceItem.endDate x) [])"
    "\<not> sublist w (or_string (ExperienceItem.description x) [])"
    using assms by (auto simp: headings_def experience_strings_def opt_string_def or_string_def split: option.splits)
  have 2: "\<not> sublist w (ExperienceItem.position x)" "\<not> sublist w (ExperienceItem.company x)"
    "\<not> sublist w (ExperienceItem.startDate x)"
    using assms(2) by (auto simp: experience_strings_def)
  have "\<not> sublist w (add_experience [] x)"
    using assms(1) 1 2
    by (auto simp: headings_def add_experience_def sublist_sep sublist_Cons_right)
  moreover have "last (add_experience [] x) = CHR 0x0A"
    by (simp add: add_experience_def)
  ultimately show ?thesis
    by (simp add: clean_block_def)
qed

lemma education_clean:
  assumes "w \<in> set headings"
    and "list_all (\<lambda>s. \<not> sublist w s) (education_strings x)"
  shows "clean_block w (add_education [] x)"
proof -
  have 1: "\<not> sublist w (or_string (EducationItem.endDate x) [])"
    "\<not> sublist w (or_string (EducationItem.description x) [])"
    using assms by (auto simp: headings_def education_strings_def opt_string_def or_string_def split: option.splits)
  have 2: "\<not> sublist w (EducationItem.degree x)" "\<not> sublist w (EducationItem.school x)"
    "\<not> sublist w (EducationItem.startDate x)"
    using assms(2) by (auto simp: education_strings_def)
  have "\<not> sublist w (add_education [] x)"
    using assms(1) 1 2
    by (auto simp: headings_def add_education_def sublist_sep sublist_Cons_right)
  moreover have "last (add_education [] x) = CHR 0x0A"
    by (simp add: add_education_def)
  ultimately show ?thesis
    by (simp add: clean_block_def)
qed

lemma project_clean:
  assumes "w \<in> set headings"
    and "list_all (\<lambda>s. \<not> sublist w s) (project_strings x)"
  shows "clean_block w (add_project [] x)"
proof -
  have 1: "\<not> sublist w (or_string (ProjectItem.technologies x) [])"
    "\<not> sublist w (or_string (ProjectItem.description x) [])"
    using assms by (auto simp: headings_def project_strings_def opt_string_def or_string_def split: option.splits)
  have 2: "\<not> sublist w (ProjectItem.name x)"
    "\<And>s. ProjectItem.url x = Some s \<Longrightarrow> \<not> sublist w s"
    using assms(2) by (auto simp: project_strings_def opt_string_def)
  have "\<not> sublist w (add_project [] x)"
    using assms(1) 1 2
    by (auto simp: headings_def add_project_def Let_def sublist_sep sublist_Cons_right split: option.splits)
  moreover have "last (add_project [] x) = CHR 0x0A"
    by (simp add: add_project_def Let_def split: option.splits)
  ultimately show ?thesis
    by (simp add: clean_block_def)
qed

lemma join_clean:
  assumes "w \<in> set headings"
    and "list_all (\<lambda>s. \<not> sublist w s) xs"
  shows "\<not> sublist w (join '', '' xs)"
  using assms
  by (induction "'', ''" xs rule: join.induct) (auto simp: headings_def sublist_sep sublist_Cons_right)

lemma skills_clean:
  assumes "w \<in> set headings"
    and "list_all (\<lambda>s. \<not> sublist w s) xs"
  shows "clean_block w (join '', '' xs @ ''\<newline>\<newline>'')"
  using assms(1) join_clean [OF assms]
  by (auto simp: clean_block_def headings_def sublist_sep sublist_Cons_right)

lemma heading_clean:
  "w \<in> set headings \<Longrightarrow> h \<in> set headings \<Longrightarrow> h \<noteq> w \<Longrightarrow> clean_block w (h @ ''\<newline>'')"
  by (auto simp: clean_block_def headings_def sublist_Cons_right)

lemma section_clean:
  assumes "w \<in> set headings" and "h \<in> set headings"
    and "h = w \<longrightarrow> entries = []"
    and "\<forall>b \<in> set entries. clean_block w b"
  shows "\<forall>b \<in> set (section_blocks h entries). clean_block w b"
  using assms heading_clean [of w h] by (auto simp: section_blocks_def)

lemma text_blocks_clean:
  assumes "w \<in> set headings" and "unmentioned w d"
    and "w = ''EXPERIENCE'' \<longrightarrow> Resume.experience d = []"
    and "w = ''EDUCATION'' \<longrightarrow> Resume.education d = []"
    and "w = ''SKILLS'' \<longrightarrow> Resume.skills d = []"
    and "w = ''PROJECTS'' \<longrightarrow> Resume.projects d = []"
  shows "\<forall>b \<in> set (text_blocks d). clean_block w b"
proof -
  have strings: "list_all (\<lambda>s. \<not> sublist w s) (personal_strings (Resume.personalInfo d))"
    "\<forall>x \<in> set (Resume.experience d). list_all (\<lambda>s. \<not> sublist w s) (experience_strings x)"
    "\<forall>x \<in> set (Resume.education d). list_all (\<lambda>s. \<not> sublist w s) (education_strings x)"
    "list_all (\<lambda>s. \<not> sublist w s) (Resume.skills d)"
    "\<forall>x \<in> set (Resume.projects d). list_all (\<lambda>s. \<not> sublist w s) (project_strings x)"
    using assms(2) by (auto simp: unmentioned_def draft_strings_def list_all_iff)
  have "clean_block w (header_block (Resume.personalInfo d))"
    using assms(1) strings(1) by (rule header_clean)
  moreover have "\<forall>b \<in> set (section_blocks ''EXPERIENCE'' (map (add_experience []) (Resume.experience d))). clean_block w b"
    using assms(1,3) strings(2) by (intro section_clean) (auto simp: headings_def intro: experience_clean)
  moreover have "\<forall>b \<in> set (section_blocks ''EDUCATION'' (map (add_education []) (Resume.education d))). clean_block w b"
    using assms(1,4) strings(3) by (intro section_clean) (auto simp: headings_def intro: education_clean)
  moreover have "\<forall>b \<in> set (section_blocks ''SKILLS''
      (if Resume.skills d = [] then [] else [join '', '' (Resume.skills d) @ ''\<newline>\<newline>''])). clean_block w b"
    using assms(1,5) strings(4) by (intro section_clean) (auto simp: headings_def intro: skills_clean)
  moreover have "\<forall>b \<in> set (section_blocks ''PROJECTS'' (map (add_project []) (Resume.projects d))). clean_block w b"
    using assms(1,6) strings(5) by (intro section_clean) (auto simp: headings_def intro: project_clean)
  ultimately show ?thesis
    unfolding text_blocks_def by (simp only: set_append ball_Un list.set ball_simps)
qed

lemma heading_absent:
  assumes "w \<in> set headings" and "unmentioned w d"
    and "w = ''EXPERIENCE'' \<longrightarrow> Resume.experience d = []"
    and "w = ''EDUCATION'' \<longrightarrow> Resume.education d = []"
    and "w = ''SKILLS'' \<longrightarrow> Resume.skills d = []"
    and "w = ''PROJECTS'' \<longrightarrow> Resume.projects d = []"
  shows "\<not> sublist w (resumeToText d)"
proof -
  have "CHR 0x0A \<notin> set w" and "w \<noteq> []"
    using assms(1) by (auto simp: headings_def)
  moreover have "\<forall>b \<in> set (text_blocks d). \<not> sublist w b \<and> (b = [] \<or> last b = CHR 0x0A)"
    using text_blocks_clean [OF assms] by (simp add: clean_block_def)
  ultimately show ?thesis
    unfolding resumeToText_blocks by (rule no_sublist_concat)
qed

lemma heading_present:
  "Resume.experience d \<noteq> [] \<Longrightarrow> sublist ''EXPERIENCE\<newline>'' (resumeToText d)"
  "Resume.education d \<noteq> [] \<Longrightarrow> sublist ''EDUCATION\<newline>'' (resumeToText d)"
  "Resume.skills d \<noteq> [] \<Longrightarrow> sublist ''SKILLS\<newline>'' (resumeToText d)"
  "Resume.projects d \<noteq> [] \<Longrightarrow> sublist ''PROJECTS\<newline>'' (resumeToText d)"
  unfolding resumeToText_blocks
  by (rule block_sublist_concat; simp add: text_blocks_def section_blocks_def)+

lemma header_ends: "suffix ''\<newline>\<newline>'' (header_block p)"
  by (simp add: header_block_def suffix_to_prefix)

lemma entries_end:
  "suffix ''\<newline>\<newline>'' (add_experience [] x)"
  "suffix ''\<newline>\<newline>'' (add_education [] y)"
  "suffix ''\<newline>\<newline>'' (add_project [] z)"
  "suffix ''\<newline>\<newline>'' (join '', '' xs @ ''\<newline>\<newline>'')"
  by (simp_all add: add_experience_def add_education_def add_project_def Let_def suffix_to_prefix
      split: option.splits)

lemma heading_not_entry:
  "h \<in> set headings \<Longrightarrow> suffix ''\<newline>\<newline>'' b \<Longrightarrow> h @ ''\<newline>'' \<noteq> b"
  by (auto simp: headings_def suffix_to_prefix)

lemma heading_in_section:
  assumes "h \<in> set headings" and "h' \<in> set headings"
    and "\<forall>b \<in> set entries. suffix ''\<newline>\<newline>'' b"
  shows "h @ ''\<newline>'' \<in> set (section_blocks h' entries) \<longleftrightarrow> h = h' \<and> entries \<noteq> []"
  using assms heading_not_entry [OF assms(1)] by (auto simp: section_blocks_def)

lemma heading_block_iff:
  "''EXPERIENCE\<newline>'' \<in> set (text_blocks d) \<longleftrightarrow> Resume.experience d \<noteq> []"
  "''EDUCATION\<newline>'' \<in> set (text_blocks d) \<longleftrightarrow> Resume.education d \<noteq> []"
  "''SKILLS\<newline>'' \<in> set (text_blocks d) \<longleftrightarrow> Resume.skills d \<noteq> []"
  "''PROJECTS\<newline>'' \<in> set (text_blocks d) \<longleftrightarrow> Resume.projects d \<noteq> []"
proof -
  have in_text: "h @ ''\<newline>'' \<in> set (text_blocks d) \<longleftrightarrow>
      (h = ''EXPERIENCE'' \<and> Resume.experience d \<noteq> []) \<or> (h = ''EDUCATION'' \<and> Resume.education d \<noteq> [])
      \<or> (h = ''SKILLS'' \<and> Resume.skills d \<noteq> []) \<or> (h = ''PROJECTS'' \<and> Resume.projects d \<noteq> [])"
    if h: "h \<in> set headings" for h
  proof -
    have f0: "(h @ ''\<newline>'' = header_block (Resume.personalInfo d)) = False"
      using heading_not_entry [OF h header_ends] by simp
    have f1: "h @ ''\<newline>'' \<in> set (section_blocks ''EXPERIENCE'' (map (add_experience []) (Resume.experience d)))
        \<longleftrightarrow> h = ''EXPERIENCE'' \<and> Resume.experience d \<noteq> []"
      using h by (subst heading_in_section) (auto simp: headings_def entries_end)
    have f2: "h @ ''\<newline>'' \<in> set (section_blocks ''EDUCATION'' (map (add_education []) (Resume.education d)))
        \<longleftrightarrow> h = ''EDUCATION'' \<and> Resume.education d \<noteq> []"
      using h by (subst heading_in_section) (auto simp: headings_def entries_end)
    have f3: "h @ ''\<newline>'' \<in> set (section_blocks ''SKILLS''
          (if Resume.skills d = [] then [] else [join '', '' (Resume.skills d) @ ''\<newline>\<newline>'']))
        \<longleftrightarrow> h = ''SKILLS'' \<and> Resume.skills d \<noteq> []"
      using h by (subst heading_in_section) (auto simp: headings_def entries_end)
    have f4: "h @ ''\<newline>'' \<in> set (section_blocks ''PROJECTS'' (map (add_project []) (Resume.projects d)))
        \<longleftrightarrow> h = ''PROJECTS'' \<and> Resume.projects d \<noteq> []"
      using h by (subst heading_in_section) (auto simp: headings_def entries_end)
    show ?thesis
      unfolding text_blocks_def
      by (simp only: set_append Un_iff list.set insert_iff empty_iff f0 f1 f2 f3 f4 simp_thms)
  qed
  show "''EXPERIENCE\<newline>'' \<in> set (text_blocks d) \<longleftrightarrow> Resume.experience d \<noteq> []"
    using in_text [of "''EXPERIENCE''"] by (simp add: headings_def)
  show "''EDUCATION\<newline>'' \<in> set (text_blocks d) \<longleftrightarrow> Resume.education d \<noteq> []"
    using in_text [of "''EDUCATION''"] by (simp add: headings_def)
  show "''SKILLS\<newline>'' \<in> set (text_blocks d) \<longleftrightarrow> Resume.skills d \<noteq> []"
    using in_text [of "''SKILLS''"] by (simp add: headings_def)
  show "''PROJECTS\<newline>'' \<in> set (text_blocks d) \<longleftrightarrow> Resume.projects d \<noteq> []"
    using in_text [of "''PROJECTS''"] by (simp add: headings_def)
qed

text \<open>The text of the example draft, computed from the definition.\<close>

lemma resumeToText_example:
  "resumeToText example_draft =
     ''Ana Lima\<newline>ana@example.org | \<newline>\<newline>SUMMARY\<newline>Builds things.\<newline>\<newline>EXPERIENCE\<newline>Engineer at Acme\<newline>2020-01 - Present\<newline>\<newline>\<newline>EDUCATION\<newline>BSc at State University\<newline>2015-09 - 2019-06\<newline>\<newline>\<newline>SKILLS\<newline>SQL, Go\<newline>\<newline>PROJECTS\<newline>Ledger\<newline>Technologies: Go\<newline>A small ledger.\<newline>\<newline>''"
  by (simp add: resumeToText_def example_draft_def add_experience_def add_education_def
      add_project_def or_string_def Let_def)

text \<open>
  C3. The projection is a function of the draft: equal drafts give the same text, character
  for character. The text is the concatenation of its blocks, and for every draft the heading
  line of a section (EXPERIENCE, EDUCATION, SKILLS, PROJECTS) is among the blocks exactly when
  the section's list is not empty. On the text itself: when the list is empty and no string of
  the draft holds the heading word, the word occurs nowhere in the text; when the list is not
  empty, the heading line occurs in it.
\<close>

theorem resumeToText_sections:
  "(d = d' \<longrightarrow> resumeToText d = resumeToText d')
   \<and> resumeToText d = concat (text_blocks d)
   \<and> (''EXPERIENCE\<newline>'' \<in> set (text_blocks d) \<longleftrightarrow> Resume.experience d \<noteq> [])
   \<and> (''EDUCATION\<newline>'' \<in> set (text_blocks d) \<longleftrightarrow> Resume.education d \<noteq> [])
   \<and> (''SKILLS\<newline>'' \<in> set (text_blocks d) \<longleftrightarrow> Resume.skills d \<noteq> [])
   \<and> (''PROJECTS\<newline>'' \<in> set (text_blocks d) \<longleftrightarrow> Resume.projects d \<noteq> [])
   \<and> (Resume.experience d = [] \<and> unmentioned ''EXPERIENCE'' d \<longrightarrow> \<not> sublist ''EXPERIENCE'' (resumeToText d))
   \<and> (Resume.education d = [] \<and> unmentioned ''EDUCATION'' d \<longrightarrow> \<not> sublist ''EDUCATION'' (resumeToText d))
   \<and> (Resume.skills d = [] \<and> unmentioned ''SKILLS'' d \<longrightarrow> \<not> sublist ''SKILLS'' (resumeToText d))
   \<and> (Resume.projects d = [] \<and> unmentioned ''PROJECTS'' d \<longrightarrow> \<not> sublist ''PROJECTS'' (resumeToText d))
   \<and> (Resume.experience d \<noteq> [] \<longrightarrow> sublist ''EXPERIENCE\<newline>'' (resumeToText d))
   \<and> (Resume.education d \<noteq> [] \<longrightarrow> sublist ''EDUCATION\<newline>'' (resumeToText d))
   \<and> (Resume.skills d \<noteq> [] \<longrightarrow> sublist ''SKILLS\<newline>'' (resumeToText d))
   \<and> (Resume.projects d \<noteq> [] \<longrightarrow> sublist ''PROJECTS\<newline>'' (resumeToText d))"
proof -
  have absent: "\<not> sublist ''EXPERIENCE'' (resumeToText d)"
    if "Resume.experience d = []" "unmentioned ''EXPERIENCE'' d"
    using that by (intro heading_absent) (simp_all add: headings_def)
  have absent2: "\<not> sublist ''EDUCATION'' (resumeToText d)"
    if "Resume.education d = []" "unmentioned ''EDUCATION'' d"
    using that by (intro heading_absent) (simp_all add: headings_def)
  have absent3: "\<not> sublist ''SKILLS'' (resumeToText d)"
    if "Resume.skills d = []" "unmentioned ''SKILLS'' d"
    using that by (intro heading_absent) (simp_all add: headings_def)
  have absent4: "\<not> sublist ''PROJECTS'' (resumeToText d)"
    if "Resume.projects d = []" "unmentioned ''PROJECTS'' d"
    using that by (intro heading_absent) (simp_all add: headings_def)
  show ?thesis
    using absent absent2 absent3 absent4 heading_present [of d] heading_block_iff [of d]
      resumeToText_blocks [of d]
    by blast
qed

theorem resumeToText_sections_witness:
  "Resume.experience initial_resumeData = [] \<and> unmentioned ''EXPERIENCE'' initial_resumeData
   \<and> \<not> sublist ''EXPERIENCE'' (resumeToText initial_resumeData)
   \<and> Resume.education initial_resumeData = [] \<and> unmentioned ''EDUCATION'' initial_resumeData
   \<and> \<not> sublist ''EDUCATION'' (resumeToText initial_resumeData)
   \<and> Resume.skills initial_resumeData = [] \<and> unmentioned ''SKILLS'' initial_resumeData
   \<and> \<not> sublist ''SKILLS'' (resumeToText initial_resumeData)
   \<and> Resume.projects initial_resumeData = [] \<and> unmentioned ''PROJECTS'' initial_resumeData
   \<and> \<not> sublist ''PROJECTS'' (resumeToText initial_resumeData)
   \<and> Resume.experience example_draft \<noteq> [] \<and> sublist ''EXPERIENCE\<newline>'' (resumeToText example_draft)
   \<and> Resume.education example_draft \<noteq> [] \<and> sublist ''EDUCATION\<newline>'' (resumeToText example_draft)
   \<and> Resume.skills example_draft \<noteq> [] \<and> sublist ''SKILLS\<newline>'' (resumeToText example_draft)
   \<and> Resume.projects example_draft \<noteq> [] \<and> sublist ''PROJECTS\<newline>'' (resumeToText example_draft)
   \<and> resumeToText example_draft = resumeToText example_draft"
proof -
  have empty: "Resume.experience initial_resumeData = []" "Resume.education initial_resumeData = []"
      "Resume.skills initial_resumeData = []" "Resume.projects initial_resumeData = []"
    by (simp_all add: initial_resumeData_def)
  have quiet: "unmentioned ''EXPERIENCE'' initial_resumeData" "unmentioned ''EDUCATION'' initial_resumeData"
      "unmentioned ''SKILLS'' initial_resumeData" "unmentioned ''PROJECTS'' initial_resumeData"
    by (simp_all add: unmentioned_def draft_strings_def personal_strings_def opt_string_def
        initial_resumeData_def)
  have full: "Resume.experience example_draft \<noteq> []" "Resume.education example_draft \<noteq> []"
      "Resume.skills example_draft \<noteq> []" "Resume.projects example_draft \<noteq> []"
    by (simp_all add: example_draft_def)
  show ?thesis
    using resumeToText_sections [of initial_resumeData initial_resumeData]
      resumeToText_sections [of example_draft example_draft]
      empty full quiet
    by blast
qed

section \<open>The Remote Resume Repository: create, read back, update\<close>

text \<open>The four idioms of create, in the words of the amended round trip.\<close>

lemma or_null_blank: "or_string_opt (non_null x) None = non_null (blank_as_absent x)"
  by (simp add: or_string_opt_def non_null_def blank_as_absent_def split: option.splits)

lemma or_default_blank: "or_string (non_null x) d = supplied_or (blank_as_absent x) d"
  by (simp add: or_string_def supplied_or_def non_null_def blank_as_absent_def split: option.splits)

lemma or_array_supplied: "or_array (non_null x) [] = supplied_or x []"
  by (simp add: or_array_def supplied_or_def split: option.splits)

lemma or_bool_supplied: "or_bool (non_null x) False = supplied_or x False"
  by (simp add: or_bool_def supplied_or_def split: option.splits)

lemma new_resume_fields:
  "fields_as_supplied_nonblank data (new_resume i score created updated data)"
  "fields_as_supplied_nonblank data
     (new_resume i score created updated (data\<lparr>Partial_ResumeData.atsScore := None\<rparr>))"
  by (simp_all add: fields_as_supplied_nonblank_def fields_as_supplied_def new_resume_def
      or_null_blank or_default_blank or_array_supplied or_bool_supplied)

lemma select_appended:
  "select_by_id i rs = [] \<Longrightarrow> ResumeData.id r = i \<Longrightarrow> first_of (select_by_id i (rs @ [r])) = Some r"
  by (simp add: select_by_id_def first_of_def)

text \<open>
  The ids of a table all lie below the next value of its sequence: this holds of the empty
  table and is kept by create, update (which cannot write an id) and delete. On such a table
  the insert of create succeeds.
\<close>

lemma ids_stay_below:
  "empty_database = Connected t0 \<Longrightarrow> list_all (\<lambda>r. ResumeData.id r < next_id t0) (rows t0)"
  "list_all (\<lambda>r. ResumeData.id r < next_id t) (rows t) \<Longrightarrow>
     DatabaseStorage_createResume now data (Connected t) = Inr (r, Connected t') \<Longrightarrow>
     list_all (\<lambda>r. ResumeData.id r < next_id t') (rows t')"
  "list_all (\<lambda>r. ResumeData.id r < next_id t) (rows t) \<Longrightarrow>
     DatabaseStorage_updateResume now i data (Connected t) = Inr (u, Connected t') \<Longrightarrow>
     list_all (\<lambda>r. ResumeData.id r < next_id t') (rows t')"
  "list_all (\<lambda>r. ResumeData.id r < next_id t) (rows t) \<Longrightarrow>
     DatabaseStorage_deleteResume i (Connected t) = Inr (b, Connected t') \<Longrightarrow>
     list_all (\<lambda>r. ResumeData.id r < next_id t') (rows t')"
proof -
  show "empty_database = Connected t0 \<Longrightarrow> list_all (\<lambda>r. ResumeData.id r < next_id t0) (rows t0)"
    by (auto simp: empty_database_def)
  show "list_all (\<lambda>r. ResumeData.id r < next_id t') (rows t')"
    if "list_all (\<lambda>r. ResumeData.id r < next_id t) (rows t)"
      and "DatabaseStorage_createResume now data (Connected t) = Inr (r, Connected t')"
  proof -
    have "ResumeData.id (new_resume (next_id t) None (Some now) (Some now) v) = next_id t" for v
      by (simp add: new_resume_def)
    then show ?thesis
      using that
      by (fastforce simp: DatabaseStorage_createResume_def Let_def list_all_iff split: if_splits)
  qed
  have keeps: "ResumeData.id (spread_resume r ((validUpdateData data)\<lparr>Partial_ResumeData.updatedAt := Some (Some now)\<rparr>))
      = ResumeData.id r" for r
    by (simp add: spread_resume_def validUpdateData_def nullish_def)
  show "list_all (\<lambda>r. ResumeData.id r < next_id t') (rows t')"
    if "list_all (\<lambda>r. ResumeData.id r < next_id t) (rows t)"
      and "DatabaseStorage_updateResume now i data (Connected t) = Inr (u, Connected t')"
    using that keeps
    by (auto simp: DatabaseStorage_updateResume_def Let_def list_all_iff)
  show "list_all (\<lambda>r. ResumeData.id r < next_id t') (rows t')"
    if "list_all (\<lambda>r. ResumeData.id r < next_id t) (rows t)"
      and "DatabaseStorage_deleteResume i (Connected t) = Inr (b, Connected t')"
    using that
    by (auto simp: DatabaseStorage_deleteResume_def list_all_iff)
qed

lemma create_succeeds:
  assumes "list_all (\<lambda>r. ResumeData.id r < next_id t) (rows t)"
  shows "\<exists>r db'. DatabaseStorage_createResume now data (Connected t) = Inr (r, db')"
proof -
  have "select_by_id (next_id t) (rows t) = []"
    using assms by (auto simp: select_by_id_def list_all_iff filter_empty_conv)
  then show ?thesis
    by (simp add: DatabaseStorage_createResume_def Let_def)
qed

text \<open>
  C7, as amended. For every partial record given to the repository's create, reading the
  record back by the returned id yields that record: its user-editable fields equal the input
  as supplied, except that a text supplied as the empty string reads back as null (the style
  and the colour scheme as their defaults); omitted fields hold the domain defaults; the id is
  the next one of the store, both timestamps are the time of the call, and \<open>atsScore\<close> is null,
  also when one was supplied. This holds for the in-memory store, and for the database store
  whenever the insert succeeds.
\<close>

theorem create_then_read_back:
  "(case MemStorage_createResume now data st of
      (r, st') \<Rightarrow>
        MemStorage_getResume (ResumeData.id r) st' = Some r
        \<and> fields_as_supplied_nonblank data r
        \<and> ResumeData.id r = resumeIdCounter st
        \<and> ResumeData.createdAt r = Some now \<and> ResumeData.updatedAt r = Some now
        \<and> ResumeData.atsScore r = None)
   \<and> (DatabaseStorage_createResume now data db = Inr (r, db') \<longrightarrow>
        DatabaseStorage_getResume (ResumeData.id r) db' = Inr (Some r)
        \<and> fields_as_supplied_nonblank data r
        \<and> (\<exists>t. db = Connected t \<and> ResumeData.id r = next_id t)
        \<and> ResumeData.createdAt r = Some now \<and> ResumeData.updatedAt r = Some now
        \<and> ResumeData.atsScore r = None)"
proof -
  have mem: "(case MemStorage_createResume now data st of
      (r, st') \<Rightarrow>
        MemStorage_getResume (ResumeData.id r) st' = Some r
        \<and> fields_as_supplied_nonblank data r
        \<and> ResumeData.id r = resumeIdCounter st
        \<and> ResumeData.createdAt r = Some now \<and> ResumeData.updatedAt r = Some now
        \<and> ResumeData.atsScore r = None)"
    using new_resume_fields(1) [of data "resumeIdCounter st" None "Some now" "Some now"]
    by (simp add: MemStorage_createResume_def MemStorage_getResume_def Let_def)
       (simp add: new_resume_def)
  have dbs: "DatabaseStorage_getResume (ResumeData.id r) db' = Inr (Some r)
        \<and> fields_as_supplied_nonblank data r
        \<and> (\<exists>t. db = Connected t \<and> ResumeData.id r = next_id t)
        \<and> ResumeData.createdAt r = Some now \<and> ResumeData.updatedAt r = Some now
        \<and> ResumeData.atsScore r = None"
    if created: "DatabaseStorage_createResume now data db = Inr (r, db')"
  proof -
    obtain t where t: "db = Connected t"
      using created by (cases db) (simp_all add: DatabaseStorage_createResume_def)
    let ?r = "new_resume (next_id t) None (Some now) (Some now) (data\<lparr>Partial_ResumeData.atsScore := None\<rparr>)"
    have free: "select_by_id (next_id t) (rows t) = []"
      and r: "r = ?r"
      and db': "db' = Connected \<lparr>rows = rows t @ [?r], next_id = next_id t + 1\<rparr>"
      using created unfolding t
      by (auto simp: DatabaseStorage_createResume_def Let_def split: if_splits)
    have i: "ResumeData.id ?r = next_id t"
      by (simp add: new_resume_def)
    have "DatabaseStorage_getResume (ResumeData.id r) db' = Inr (Some r)"
      unfolding r db' i using select_appended [OF free i]
      by (simp add: DatabaseStorage_getResume_def)
    moreover have "fields_as_supplied_nonblank data r"
      unfolding r by (rule new_resume_fields(2))
    moreover have "ResumeData.createdAt r = Some now" "ResumeData.updatedAt r = Some now"
        "ResumeData.atsScore r = None"
      unfolding r by (simp_all add: new_resume_def)
    ultimately show ?thesis
      using t i r by simp
  qed
  show ?thesis
    using mem dbs by blast
qed

theorem create_then_read_back_witness:
  "DatabaseStorage_createResume 5
      (no_fields\<lparr>Partial_ResumeData.firstName := Some (Some ''Ana''),
                 Partial_ResumeData.atsScore := Some (Some 80)\<rparr>) empty_database
    = Inr (new_resume 1 None (Some 5) (Some 5) (no_fields\<lparr>Partial_ResumeData.firstName := Some (Some ''Ana'')\<rparr>),
           Connected \<lparr>rows = [new_resume 1 None (Some 5) (Some 5)
                                 (no_fields\<lparr>Partial_ResumeData.firstName := Some (Some ''Ana'')\<rparr>)],
                      next_id = 2\<rparr>)
   \<and> DatabaseStorage_getResume 1
        (Connected \<lparr>rows = [new_resume 1 None (Some 5) (Some 5)
                                 (no_fields\<lparr>Partial_ResumeData.firstName := Some (Some ''Ana'')\<rparr>)],
                      next_id = 2\<rparr>)
      = Inr (Some (new_resume 1 None (Some 5) (Some 5)
                     (no_fields\<lparr>Partial_ResumeData.firstName := Some (Some ''Ana'')\<rparr>)))
   \<and> ResumeData.firstName (new_resume 1 None (Some 5) (Some 5)
                     (no_fields\<lparr>Partial_ResumeData.firstName := Some (Some ''Ana'')\<rparr>)) = Some ''Ana''
   \<and> ResumeData.atsScore (new_resume 1 None (Some 5) (Some 5)
                     (no_fields\<lparr>Partial_ResumeData.firstName := Some (Some ''Ana'')\<rparr>)) = None"
proof -
  let ?p = "no_fields\<lparr>Partial_ResumeData.firstName := Some (Some ''Ana''),
                 Partial_ResumeData.atsScore := Some (Some 80)\<rparr>"
  let ?r = "new_resume 1 None (Some 5) (Some 5) (no_fields\<lparr>Partial_ResumeData.firstName := Some (Some ''Ana'')\<rparr>)"
  let ?db = "Connected \<lparr>rows = [?r], next_id = 2\<rparr>"
  have created: "DatabaseStorage_createResume 5 ?p empty_database = Inr (?r, ?db)"
    by (simp add: DatabaseStorage_createResume_def empty_database_def select_by_id_def Let_def
        no_fields_def)
  have id: "ResumeData.id ?r = 1" and name: "ResumeData.firstName ?r = Some ''Ana''"
    by (simp_all add: new_resume_def no_fields_def non_null_def or_string_opt_def)
  show ?thesis
    using create_then_read_back [where now = 5 and data = ?p and st = MemStorage_new
        and db = empty_database and r = ?r and db' = ?db] created id name
    by simp
qed

text \<open>
  C7, as stated, fails: a phone number supplied as the empty string, as the builder sends it
  for a field left blank, reads back as null and not as supplied, from either store.
\<close>

theorem create_then_read_back_counterexample:
  "(case DatabaseStorage_createResume 5
           (no_fields\<lparr>Partial_ResumeData.firstName := Some (Some ''Ana''),
                      Partial_ResumeData.phone := Some (Some '''')\<rparr>) empty_database of
      Inl e \<Rightarrow> False
    | Inr (r, db') \<Rightarrow>
        DatabaseStorage_getResume (ResumeData.id r) db' = Inr (Some r)
        \<and> ResumeData.phone r = None
        \<and> \<not> fields_as_supplied
              (no_fields\<lparr>Partial_ResumeData.firstName := Some (Some ''Ana''),
                         Partial_ResumeData.phone := Some (Some '''')\<rparr>) r)
   \<and> (case MemStorage_createResume 5
           (no_fields\<lparr>Partial_ResumeData.firstName := Some (Some ''Ana''),
                      Partial_ResumeData.phone := Some (Some '''')\<rparr>) MemStorage_new of
      (r, st') \<Rightarrow>
        MemStorage_getResume (ResumeData.id r) st' = Some r
        \<and> ResumeData.phone r = None
        \<and> \<not> fields_as_supplied
              (no_fields\<lparr>Partial_ResumeData.firstName := Some (Some ''Ana''),
                         Partial_ResumeData.phone := Some (Some '''')\<rparr>) r)"
  by (simp add: DatabaseStorage_createResume_def DatabaseStorage_getResume_def empty_database_def
      MemStorage_createResume_def MemStorage_getResume_def MemStorage_new_def
      select_by_id_def first_of_def Let_def no_fields_def new_resume_def fields_as_supplied_def
      non_null_def or_string_opt_def)

text \<open>
  Update by id in the database store, one row at a time: the payload loses \<open>id\<close> and
  \<open>atsScore\<close> before it is written, and a key absent from what is written leaves its column
  as it was.
\<close>

lemma nullish_written: "field_written payload before (nullish payload before)"
  by (cases payload) (simp_all add: field_written_def nullish_def)

lemma updateResume_row:
  "ResumeData.id (spread_resume old ((validUpdateData data)\<lparr>Partial_ResumeData.updatedAt := Some (Some now)\<rparr>))
     = ResumeData.id old"
  "ResumeData.atsScore (spread_resume old ((validUpdateData data)\<lparr>Partial_ResumeData.updatedAt := Some (Some now)\<rparr>))
     = ResumeData.atsScore old"
  "ResumeData.updatedAt (spread_resume old ((validUpdateData data)\<lparr>Partial_ResumeData.updatedAt := Some (Some now)\<rparr>))
     = Some now"
  "only_provided_fields_change data old
     (spread_resume old ((validUpdateData data)\<lparr>Partial_ResumeData.updatedAt := Some (Some now)\<rparr>))"
  by (simp_all add: spread_resume_def validUpdateData_def only_provided_fields_change_def
      nullish_written, simp_all add: nullish_def)

lemma first_of_map: "first_of (map f xs) = map_option f (first_of xs)"
  by (cases xs) (simp_all add: first_of_def)

lemma updateResume_table:
  fixes f :: "ResumeData \<Rightarrow> ResumeData"
  assumes "\<And>r. ResumeData.id (f r) = ResumeData.id r"
  shows "select_by_id i (map (\<lambda>r. if ResumeData.id r = i then f r else r) rs) = map f (select_by_id i rs)"
    and "filter (\<lambda>r. ResumeData.id r \<noteq> i) (map (\<lambda>r. if ResumeData.id r = i then f r else r) rs)
      = filter (\<lambda>r. ResumeData.id r \<noteq> i) rs"
  using assms by (induction rs) (simp_all add: select_by_id_def)

text \<open>
  C6. For every update of a record that exists, whatever the payload: the update succeeds and
  answers the record as it now stands under the same id; the record keeps its \<open>id\<close> and its
  \<open>atsScore\<close>, also when the payload carries others; \<open>updatedAt\<close> is the time of the update; each
  of the remaining fields holds the payload's value when the payload carries the field and
  is left as it was when it does not; and no other record, nor the sequence of ids, changes.
\<close>

theorem DatabaseStorage_updateResume_frame:
  assumes "DatabaseStorage_getResume i (Connected t) = Inr (Some old)"
  shows "\<exists>new t'.
      DatabaseStorage_updateResume now i data (Connected t) = Inr (Some new, Connected t')
    \<and> DatabaseStorage_getResume i (Connected t') = Inr (Some new)
    \<and> ResumeData.id new = i
    \<and> ResumeData.id new = ResumeData.id old
    \<and> ResumeData.atsScore new = ResumeData.atsScore old
    \<and> ResumeData.updatedAt new = Some now
    \<and> only_provided_fields_change data old new
    \<and> filter (\<lambda>r. ResumeData.id r \<noteq> i) (rows t') = filter (\<lambda>r. ResumeData.id r \<noteq> i) (rows t)
    \<and> length (rows t') = length (rows t)
    \<and> next_id t' = next_id t"
proof -
  let ?vals = "(validUpdateData data)\<lparr>Partial_ResumeData.updatedAt := Some (Some now)\<rparr>"
  let ?set = "\<lambda>r. spread_resume r ?vals"
  let ?rows = "map (\<lambda>r. if ResumeData.id r = i then ?set r else r) (rows t)"
  have found: "first_of (select_by_id i (rows t)) = Some old"
    using assms by (simp add: DatabaseStorage_getResume_def)
  then have "old \<in> set (select_by_id i (rows t))"
    by (auto simp: first_of_def split: list.splits)
  then have old_id: "ResumeData.id old = i"
    by (simp add: select_by_id_def)
  have keeps: "ResumeData.id (?set r) = ResumeData.id r" for r
    by (rule updateResume_row)
  have selected: "select_by_id i ?rows = map ?set (select_by_id i (rows t))"
    and others: "filter (\<lambda>r. ResumeData.id r \<noteq> i) ?rows = filter (\<lambda>r. ResumeData.id r \<noteq> i) (rows t)"
    using updateResume_table [of ?set, OF keeps] by blast+
  have answer: "first_of (select_by_id i ?rows) = Some (?set old)"
    by (simp only: selected first_of_map found option.map)
  have update: "DatabaseStorage_updateResume now i data (Connected t)
      = Inr (Some (?set old), Connected (t\<lparr>rows := ?rows\<rparr>))"
    by (simp add: DatabaseStorage_updateResume_def Let_def answer)
  have read: "DatabaseStorage_getResume i (Connected (t\<lparr>rows := ?rows\<rparr>)) = Inr (Some (?set old))"
    by (simp add: DatabaseStorage_getResume_def answer)
  have "DatabaseStorage_updateResume now i data (Connected t) = Inr (Some (?set old), Connected (t\<lparr>rows := ?rows\<rparr>))
    \<and> DatabaseStorage_getResume i (Connected (t\<lparr>rows := ?rows\<rparr>)) = Inr (Some (?set old))
    \<and> ResumeData.id (?set old) = i
    \<and> ResumeData.id (?set old) = ResumeData.id old
    \<and> ResumeData.atsScore (?set old) = ResumeData.atsScore old
    \<and> ResumeData.updatedAt (?set old) = Some now
    \<and> only_provided_fields_change data old (?set old)
    \<and> filter (\<lambda>r. ResumeData.id r \<noteq> i) (rows (t\<lparr>rows := ?rows\<rparr>)) = filter (\<lambda>r. ResumeData.id r \<noteq> i) (rows t)
    \<and> length (rows (t\<lparr>rows := ?rows\<rparr>)) = length (rows t)
    \<and> next_id (t\<lparr>rows := ?rows\<rparr>) = next_id t"
    using update read others old_id updateResume_row [where old = old and data = data and now = now] by simp
  then show ?thesis
    by blast
qed

theorem DatabaseStorage_updateResume_frame_witness:
  "DatabaseStorage_createResume 5 no_fields empty_database
     = Inr (new_resume 1 None (Some 5) (Some 5) no_fields,
            Connected \<lparr>rows = [new_resume 1 None (Some 5) (Some 5) no_fields], next_id = 2\<rparr>)
   \<and> DatabaseStorage_getResume 1 (Connected \<lparr>rows = [new_resume 1 None (Some 5) (Some 5) no_fields], next_id = 2\<rparr>)
     = Inr (Some (new_resume 1 None (Some 5) (Some 5) no_fields))
   \<and> (\<exists>new t'.
        DatabaseStorage_updateResume 6 1 example_update
          (Connected \<lparr>rows = [new_resume 1 None (Some 5) (Some 5) no_fields], next_id = 2\<rparr>)
          = Inr (Some new, Connected t')
      \<and> DatabaseStorage_getResume 1 (Connected t') = Inr (Some new)
      \<and> ResumeData.id new = 1
      \<and> ResumeData.atsScore new = None
      \<and> ResumeData.firstName new = Some ''Ana''
      \<and> ResumeData.lastName new = None
      \<and> ResumeData.skills new = Some []
      \<and> ResumeData.createdAt new = Some 5
      \<and> ResumeData.updatedAt new = Some 6
      \<and> next_id t' = 2)"
proof -
  let ?row = "new_resume 1 None (Some 5) (Some 5) no_fields"
  let ?t = "\<lparr>rows = [?row], next_id = 2\<rparr>"
  have created: "DatabaseStorage_createResume 5 no_fields empty_database = Inr (?row, Connected ?t)"
    by (simp add: DatabaseStorage_createResume_def empty_database_def select_by_id_def Let_def no_fields_def)
  have stored: "DatabaseStorage_getResume 1 (Connected ?t) = Inr (Some ?row)"
    by (simp add: DatabaseStorage_getResume_def select_by_id_def first_of_def new_resume_def)
  have row: "ResumeData.atsScore ?row = None" "ResumeData.lastName ?row = None"
    "ResumeData.skills ?row = Some []" "ResumeData.createdAt ?row = Some 5"
    by (simp_all add: new_resume_def no_fields_def non_null_def or_string_opt_def or_array_def)
  have payload: "Partial_ResumeData.firstName example_update = Some (Some ''Ana'')"
    "Partial_ResumeData.lastName example_update = None"
    "Partial_ResumeData.skills example_update = None"
    "Partial_ResumeData.createdAt example_update = None"
    by (simp_all add: example_update_def no_fields_def)
  from DatabaseStorage_updateResume_frame [OF stored, where now = 6 and data = example_update]
  obtain new t' where
    u: "DatabaseStorage_updateResume 6 1 example_update (Connected ?t) = Inr (Some new, Connected t')"
    and g: "DatabaseStorage_getResume 1 (Connected t') = Inr (Some new)"
    and i: "ResumeData.id new = 1"
    and s: "ResumeData.atsScore new = ResumeData.atsScore ?row"
    and w: "ResumeData.updatedAt new = Some 6"
    and f: "only_provided_fields_change example_update ?row new"
    and n: "next_id t' = next_id ?t"
    by blast
  have fields: "ResumeData.firstName new = Some ''Ana''" "ResumeData.lastName new = None"
    "ResumeData.skills new = Some []" "ResumeData.createdAt new = Some 5"
    using f by (simp_all add: only_provided_fields_change_def field_written_def payload row)
  have "DatabaseStorage_updateResume 6 1 example_update (Connected ?t) = Inr (Some new, Connected t')
      \<and> DatabaseStorage_getResume 1 (Connected t') = Inr (Some new)
      \<and> ResumeData.id new = 1
      \<and> ResumeData.atsScore new = None
      \<and> ResumeData.firstName new = Some ''Ana''
      \<and> ResumeData.lastName new = None
      \<and> ResumeData.skills new = Some []
      \<and> ResumeData.createdAt new = Some 5
      \<and> ResumeData.updatedAt new = Some 6
      \<and> next_id t' = 2"
    using u g i s w n fields row by simp
  then show ?thesis
    using created stored by blast
qed

text \<open>
  The in-memory store, which the module keeps for reference and never creates (the store the
  routes use is the database store), spreads the whole payload over the stored record
  instead: there the same payload leaves, under key 1, a record whose \<open>id\<close> is 7 and whose
  \<open>atsScore\<close> is 90.
\<close>

lemma MemStorage_updateResume_spreads_payload:
  "(case MemStorage_createResume 5 no_fields MemStorage_new of
      (r, st) \<Rightarrow>
        ResumeData.id r = 1 \<and> ResumeData.atsScore r = None \<and>
        (case MemStorage_updateResume 6 1 example_update st of
           (u, st') \<Rightarrow>
             map_option ResumeData.id (MemStorage_getResume 1 st') = Some 7
             \<and> map_option ResumeData.atsScore (MemStorage_getResume 1 st') = Some (Some 90)
             \<and> MemStorage_getResume 7 st' = None))"
  by (simp add: MemStorage_createResume_def MemStorage_updateResume_def MemStorage_getResume_def
      MemStorage_new_def Let_def new_resume_def spread_resume_def no_fields_def nullish_def
      example_update_def)

section \<open>The route GET /api/resumes/:id: which ids are refused\<close>

text \<open>The three answers of the handler, by what \<open>parseInt\<close> and the store return; path
  segments with no leading digit are refused.\<close>

lemma get_resume_route_status:
  "parseInt id_param = None \<Longrightarrow> status (get_resume_route id_param db) = 400"
  "parseInt id_param = Some i \<Longrightarrow> DatabaseStorage_getResume i db = Inr None \<Longrightarrow>
     status (get_resume_route id_param db) = 404"
  "parseInt id_param = Some i \<Longrightarrow> DatabaseStorage_getResume i db = Inr (Some resume) \<Longrightarrow>
     get_resume_route id_param db = \<lparr>status = 200, json = ResumeJson resume\<rparr>"
  by (simp_all add: get_resume_route_def)

lemma no_digits_rejected:
  "parseInt ''abc'' = None" "parseInt '''' = None" "parseInt ''x1'' = None"
  by (simp_all add: parseInt_def isWhiteSpace_def radix_digit_def digit_of_def mathInt_def)

text \<open>A numeric segment is read as a number, so it is never refused as invalid.\<close>

lemma numeric_is_parsed:
  assumes "numeric s"
  shows "\<exists>n. parseInt s = Some (int n)"
proof -
  obtain c cs where s: "s = c # cs" and c: "c \<in> set ''0123456789''"
    and cs: "list_all (\<lambda>c. c \<in> set ''0123456789'') cs"
    using assms by (cases s) (auto simp: numeric_def)
  have digit: "radix_digit 10 c" "\<not> isWhiteSpace c" "c \<noteq> CHR ''+''" "c \<noteq> CHR ''-''"
    using c by (auto simp: radix_digit_def digit_of_def isWhiteSpace_def)
  have no_prefix: "take 2 s \<noteq> ''0x''" "take 2 s \<noteq> ''0X''"
    using cs unfolding s by (cases cs; auto)+
  have "takeWhile (radix_digit 10) s \<noteq> []"
    unfolding s using digit(1) by simp
  then show ?thesis
    using digit no_prefix unfolding s
    by (auto simp: parseInt_def Let_def)
qed

lemma numeric_not_refused:
  "numeric s \<Longrightarrow> status (get_resume_route s db) \<noteq> 400"
  using numeric_is_parsed [of s]
  by (auto simp: get_resume_route_def split: sum.splits option.splits)

text \<open>
  C8, at the failing input. The path segment \<open>1abc\<close> is not numeric, yet \<open>parseInt\<close> reads
  the number 1 from its first character, and the handler answers with status 200 and the
  record whose id is 1, where the specification asks for status 400; likewise \<open>7up\<close> and \<open>0x10\<close> are
  looked up as the ids 7 and 16 and answered with 404 on a store that has no such record.
\<close>

theorem get_resume_route_accepts_numeric_prefix:
  "\<not> numeric ''1abc''
   \<and> parseInt ''1abc'' = Some 1
   \<and> (case DatabaseStorage_createResume 5 no_fields empty_database of
         Inl e \<Rightarrow> False
       | Inr (r, db) \<Rightarrow>
           ResumeData.id r = 1
           \<and> get_resume_route ''1abc'' db = \<lparr>status = 200, json = ResumeJson r\<rparr>)
   \<and> get_resume_route ''7up'' empty_database = \<lparr>status = 404, json = Message ''Resume not found''\<rparr>
   \<and> get_resume_route ''0x10'' empty_database = \<lparr>status = 404, json = Message ''Resume not found''\<rparr>"
proof -
  have p: "parseInt ''1abc'' = Some 1" "parseInt ''7up'' = Some 7" "parseInt ''0x10'' = Some 16"
    by (simp_all add: parseInt_def isWhiteSpace_def radix_digit_def digit_of_def mathInt_def)
  have n: "\<not> numeric ''1abc''"
    by (simp add: numeric_def)
  have c: "DatabaseStorage_createResume 5 no_fields empty_database
      = Inr (new_resume 1 None (Some 5) (Some 5) no_fields,
             Connected \<lparr>rows = [new_resume 1 None (Some 5) (Some 5) no_fields], next_id = 2\<rparr>)"
    by (simp add: DatabaseStorage_createResume_def empty_database_def select_by_id_def Let_def
        no_fields_def)
  have i: "ResumeData.id (new_resume 1 None (Some 5) (Some 5) no_fields) = 1"
    by (simp add: new_resume_def)
  have found: "DatabaseStorage_getResume 1
      (Connected \<lparr>rows = [new_resume 1 None (Some 5) (Some 5) no_fields], next_id = 2\<rparr>)
      = Inr (Some (new_resume 1 None (Some 5) (Some 5) no_fields))"
    by (simp add: DatabaseStorage_getResume_def select_by_id_def first_of_def i)
  have absent: "DatabaseStorage_getResume j empty_database = Inr None" for j
    by (simp add: DatabaseStorage_getResume_def select_by_id_def first_of_def empty_database_def)
  show ?thesis
    by (simp add: p n c i found absent get_resume_route_def)
qed

section \<open>Removing a list entry\<close>

lemma remove_skill_aux:
  "map snd (filter (\<lambda>(i, _). i \<noteq> k + n) (enumerate k xs)) = take n xs @ drop (Suc n) xs"
proof (induction xs arbitrary: k n)
  case Nil
  then show ?case by simp
next
  case (Cons x xs)
  show ?case
  proof (cases n)
    case 0
    have "filter (\<lambda>(i, _). i \<noteq> k) (enumerate (Suc k) xs) = enumerate (Suc k) xs"
      by (rule filter_True) (auto simp: in_set_enumerate_eq)
    then show ?thesis
      using 0 by simp
  next
    case (Suc m)
    then show ?thesis
      using Cons.IH [of "Suc k" m] by simp
  qed
qed

lemma newSkills_eq: "newSkills index xs = useFieldArray_remove index xs"
  using remove_skill_aux [of 0 index xs]
  by (simp add: newSkills_def useFieldArray_remove_def enumerate_eq_zip)

lemma remove_by_id_distinct:
  assumes "distinct (map ident entries)" and "index < length entries"
  shows "remove_by_id ident (ident (entries ! index)) entries = useFieldArray_remove index entries"
proof -
  let ?e = "entries ! index"
  have split: "entries = take index entries @ ?e # drop (Suc index) entries"
    using assms(2) by (simp add: id_take_nth_drop)
  have "distinct (map ident (take index entries) @ ident ?e # map ident (drop (Suc index) entries))"
    using assms(1) by (subst (asm) split) simp
  then have "\<forall>x \<in> set (take index entries). ident x \<noteq> ident ?e"
    "\<forall>x \<in> set (drop (Suc index) entries). ident x \<noteq> ident ?e"
    by (auto simp: image_iff)
  then have "filter (\<lambda>e. ident e \<noteq> ident ?e) (take index entries) = take index entries"
    "filter (\<lambda>e. ident e \<noteq> ident ?e) (drop (Suc index) entries) = drop (Suc index) entries"
    by (simp_all add: filter_True)
  then show ?thesis
    unfolding remove_by_id_def useFieldArray_remove_def
    by (subst split) simp
qed


text \<open>
  The draft follows the form at the form's next change event, if there is one: the list of
  the draft is then the form's list without the entry at the position clicked. Where the ids
  of the form's list are distinct, that is the list without the entry that carries the id.
\<close>

lemma written_draft: "resumeData (snd (written b r)) = resumeData b"
  by (cases r) (simp_all add: written_def)

lemma change_after_remove:
  "Resume.education (resumeData (snd (EducationForm_handleFormChange now (EducationForm_remove index b))))
     = useFieldArray_remove index (education_form b)"
  "Resume.experience (resumeData (snd (ExperienceForm_handleFormChange now (ExperienceForm_remove index b))))
     = useFieldArray_remove index (experience_form b)"
  "Resume.projects (resumeData (snd (SkillsForm_handleFormChange now (SkillsForm_remove index b))))
     = useFieldArray_remove index (projects_form b)"
  by (simp_all add: EducationForm_handleFormChange_def handleEducationSave_def EducationForm_remove_def
      ExperienceForm_handleFormChange_def handleExperienceSave_def ExperienceForm_remove_def
      SkillsForm_handleFormChange_def handleProjectsSave_def SkillsForm_remove_def written_draft)

lemma change_after_remove_by_id:
  assumes "distinct (map EducationItem.id (education_form b))" and "index < length (education_form b)"
  shows "Resume.education (resumeData (snd (EducationForm_handleFormChange now (EducationForm_remove index b))))
     = remove_by_id EducationItem.id (EducationItem.id (education_form b ! index)) (education_form b)"
  by (simp only: change_after_remove remove_by_id_distinct [OF assms])

text \<open>The skill button writes the draft in the click itself.\<close>

lemma handleRemoveSkill_draft:
  "Resume.skills (resumeData (snd (handleRemoveSkill now index b))) = useFieldArray_remove index (skills_state b)"
  "skills_state (snd (handleRemoveSkill now index b)) = useFieldArray_remove index (skills_state b)"
  by (cases "saveResumeToLocalStorage now (no_keys\<lparr>Partial_Resume.skills := Some (newSkills index (skills_state b))\<rparr>) (storage b)";
      simp add: handleRemoveSkill_def handleSkillsSave_def written_def newSkills_eq)+





end
